theory Spec2Isabelle
  imports Main "HOL-Library.Word"
begin

unbundle bit_operations_syntax

section \<open>The raw WebSocket server (nodejs-raw-websocket/server.mjs)\<close>

text \<open>
  A shallow embedding of \<^verbatim>\<open>server.mjs\<close>: the frame handler \<^verbatim>\<open>onSocketreadable\<close>,
  the senders \<^verbatim>\<open>sendMessage\<close> and \<^verbatim>\<open>sendPong\<close>, and the handshake functions
  \<^verbatim>\<open>prepareHandshakeHeader\<close> and \<^verbatim>\<open>createSocketAccept\<close>. A byte is an 8-bit word, a
  JavaScript number is an \<open>int\<close> (every number below stays far inside the exact range of
  a double), a \<^verbatim>\<open>Buffer\<close> is a list of bytes and \<^verbatim>\<open>null\<close> is \<open>None\<close>. A thrown
  exception is a value: every function that can throw returns it instead of a result.
\<close>

subsection \<open>Constants\<close>

type_synonym byte = "8 word"

definition WEB_SOCKET_MAGIC_STRING :: string where
  "WEB_SOCKET_MAGIC_STRING = ''258EAFA5-E914-47DA-95CA-C5AB0DC85B11''"

definition SEVEN_BIT_INTIGER_MARKER :: int where
  "SEVEN_BIT_INTIGER_MARKER = 125"

definition SIXTEEN_BIT_INTIGER_MARKER :: int where
  "SIXTEEN_BIT_INTIGER_MARKER = 126"

definition SIXTYFOUR_BIT_INTIGER_MARKER :: int where
  "SIXTYFOUR_BIT_INTIGER_MARKER = 127"

definition FIRST_BIT :: int where
  "FIRST_BIT = 128"

definition OPCODES_CONTINUATION :: byte where
  "OPCODES_CONTINUATION = 0x0"

definition OPCODES_TEXT :: byte where
  "OPCODES_TEXT = 0x1"

definition OPCODES_BINARY :: byte where
  "OPCODES_BINARY = 0x2"

definition OPCODES_CLOSE :: byte where
  "OPCODES_CLOSE = 0x8"

definition OPCODES_PING :: byte where
  "OPCODES_PING = 0x9"

definition OPCODES_PONG :: byte where
  "OPCODES_PONG = 0xa"

subsection \<open>The socket and the platform calls the server makes on it\<close>

text \<open>
  The socket as the server sees it: the bytes that have arrived and were not read yet
  (\<open>inbuf\<close>), the bytes written so far (\<open>outbuf\<close>), whether \<^verbatim>\<open>socket.end()\<close> was
  called (\<open>ended\<close>), and whether Node has destroyed the socket (\<open>destroyed\<close>). The
  peer has not closed its side.

  \<^verbatim>\<open>socket.read(n)\<close> is Node's \<^verbatim>\<open>readable.read(size)\<close> in paused mode: it returns
  \<^verbatim>\<open>null\<close> and consumes nothing unless \<open>n\<close> bytes are buffered; \<^verbatim>\<open>read(0)\<close> (and a
  negative size) always returns \<^verbatim>\<open>null\<close>; a size above 1 GiB is refused with a
  \<^verbatim>\<open>RangeError\<close>. \<^verbatim>\<open>socket.write\<close> after \<^verbatim>\<open>socket.end()\<close> sends nothing: Node
  destroys the socket and reports the write on its \<^verbatim>\<open>error\<close> event, which the server
  only logs. The call that made the write runs to its end; no later chunk is read from
  a destroyed socket.
\<close>

record socket =
  inbuf :: "byte list"
  outbuf :: "byte list"
  ended :: bool
  destroyed :: bool

datatype js_error = TypeError | RangeError

definition socket_read :: "int \<Rightarrow> socket \<Rightarrow> (js_error + byte list option) \<times> socket" where
  "socket_read n s =
     (if 2 ^ 30 < n then (Inl RangeError, s)
      else if 0 < n \<and> n \<le> int (length (inbuf s))
        then (Inr (Some (take (nat n) (inbuf s))), s\<lparr>inbuf := drop (nat n) (inbuf s)\<rparr>)
      else (Inr None, s))"

definition socket_write :: "byte list \<Rightarrow> socket \<Rightarrow> socket" where
  "socket_write bs s =
     (if ended s then s\<lparr>destroyed := True\<rparr> else s\<lparr>outbuf := outbuf s @ bs\<rparr>)"

definition socket_end :: "socket \<Rightarrow> socket" where
  "socket_end s = s\<lparr>ended := True\<rparr>"

text \<open>
  Reading a field of what \<^verbatim>\<open>socket.read\<close> returned, as in
  \<^verbatim>\<open>socket.read(2).readUInt16BE(0)\<close> or \<^verbatim>\<open>const [secondByte] = socket.read(1)\<close>:
  on \<^verbatim>\<open>null\<close> JavaScript throws a \<^verbatim>\<open>TypeError\<close>.
\<close>

definition read_buffer :: "int \<Rightarrow> socket \<Rightarrow> (js_error + byte list) \<times> socket" where
  "read_buffer n s =
     (case socket_read n s of
        (Inl e, s') \<Rightarrow> (Inl e, s')
      | (Inr None, s') \<Rightarrow> (Inl TypeError, s')
      | (Inr (Some b), s') \<Rightarrow> (Inr b, s'))"

subsection \<open>Buffer accessors and the shift operator\<close>

definition readUInt16BE :: "byte list \<Rightarrow> int" where
  "readUInt16BE b = uint (b ! 0) * 2 ^ 8 + uint (b ! 1)"

definition readUInt32BE :: "byte list \<Rightarrow> int" where
  "readUInt32BE b =
     uint (b ! 0) * 2 ^ 24 + uint (b ! 1) * 2 ^ 16 + uint (b ! 2) * 2 ^ 8 + uint (b ! 3)"

definition writeUInt16BE :: "nat \<Rightarrow> byte list" where
  "writeUInt16BE v = [of_nat (v div 2 ^ 8), of_nat v]"

text \<open>\<^verbatim>\<open>writeUInt32BE\<close> throws a \<^verbatim>\<open>RangeError\<close> on a value above \<open>2^32 - 1\<close>.\<close>

definition writeUInt32BE :: "nat \<Rightarrow> js_error + byte list" where
  "writeUInt32BE v =
     (if v < 2 ^ 32
      then Inr [of_nat (v div 2 ^ 24), of_nat (v div 2 ^ 16), of_nat (v div 2 ^ 8), of_nat v]
      else Inl RangeError)"

text \<open>
  JavaScript's \<^verbatim>\<open>x << k\<close>: the left operand is converted to a signed 32-bit integer, the
  shift count is taken modulo 32, and the result is read as a signed 32-bit integer.
\<close>

definition js_shl :: "int \<Rightarrow> int \<Rightarrow> int" where
  "js_shl x k = sint (push_bit (nat (k mod 32)) (word_of_int x :: 32 word))"

subsection \<open>Sending frames\<close>

text \<open>
  \<^verbatim>\<open>sendMessage(message, socket, opcode)\<close>, lines 221-274. The argument \<open>dataBuffer\<close>
  is \<^verbatim>\<open>Buffer.from(message)\<close>, the UTF-8 bytes of the message. \<open>lengthEncoding\<close> is the
  \<^verbatim>\<open>if\<close> chain of lines 229-243 and returns \<^verbatim>\<open>payloadLength\<close> and
  \<^verbatim>\<open>extendedPayloadLength\<close>. \<^verbatim>\<open>Buffer.from([firstByte, secondByte])\<close> keeps the low
  eight bits of each number.
\<close>

definition lengthEncoding :: "nat \<Rightarrow> js_error + (int \<times> byte list)" where
  "lengthEncoding dataLength =
     (if int dataLength \<le> SEVEN_BIT_INTIGER_MARKER then Inr (int dataLength, [])
      else if dataLength \<le> 0xffff
        then Inr (SIXTEEN_BIT_INTIGER_MARKER, writeUInt16BE dataLength)
      else (case writeUInt32BE 0 of
              Inl e \<Rightarrow> Inl e
            | Inr upper \<Rightarrow>
                (case writeUInt32BE dataLength of
                   Inl e \<Rightarrow> Inl e
                 | Inr lower \<Rightarrow> Inr (SIXTYFOUR_BIT_INTIGER_MARKER, upper @ lower))))"

definition sendMessage :: "byte list \<Rightarrow> socket \<Rightarrow> byte \<Rightarrow> js_error option \<times> socket" where
  "sendMessage dataBuffer s opcode =
     (case lengthEncoding (length dataBuffer) of
        Inl e \<Rightarrow> (Some e, s)
      | Inr (payloadLength, extendedPayloadLength) \<Rightarrow>
          (let firstByte = 0x80 OR opcode;
               secondByte = (of_int payloadLength :: byte);
               header = [firstByte, secondByte] @ extendedPayloadLength
           in (None, socket_write dataBuffer (socket_write header s))))"

text \<open>\<^verbatim>\<open>sendPong(data, socket)\<close>, lines 282-289.\<close>

definition sendPong :: "byte list \<Rightarrow> socket \<Rightarrow> socket" where
  "sendPong data s =
     (let firstByte = 0x80 OR OPCODES_PONG;
          secondByte = (of_nat (length data) :: byte);
          header = [firstByte, secondByte]
      in socket_write data (socket_write header s))"

subsection \<open>Receiving a frame\<close>

text \<open>
  What one call of \<^verbatim>\<open>onSocketreadable\<close> did: it returned at line 147 (\<open>NoData\<close>), it
  returned at line 182 after logging that the payload could not be read
  (\<open>ReadFailed\<close>), it threw before a frame was decoded (\<open>Thrown\<close>), or it reached
  the log of line 193 with the locals collected in a \<open>frame\<close> and ran the dispatch
  (\<open>Received\<close>, with the exception the dispatch threw, if any).
\<close>

record frame =
  isFinalFrame :: bool
  opcode :: byte
  isMasked :: bool
  messageLength :: int
  decoded :: "byte list"

datatype outcome = NoData | ReadFailed | Thrown js_error | Received frame "js_error option"

text \<open>Line 156: \<^verbatim>\<open>secondByte - FIRST_BIT\<close>.\<close>

definition lengthIndicatorInBits :: "byte \<Rightarrow> int" where
  "lengthIndicatorInBits secondByte = uint secondByte - FIRST_BIT"

text \<open>Lines 159-172: the message length, from the indicator and the bytes that follow.\<close>

definition readMessageLength :: "int \<Rightarrow> socket \<Rightarrow> (js_error + int) \<times> socket" where
  "readMessageLength ind s =
     (if ind \<le> SEVEN_BIT_INTIGER_MARKER then (Inr ind, s)
      else if ind = SIXTEEN_BIT_INTIGER_MARKER then
        (case read_buffer 2 s of
           (Inl e, s1) \<Rightarrow> (Inl e, s1)
         | (Inr b, s1) \<Rightarrow> (Inr (readUInt16BE b), s1))
      else if ind = SIXTYFOUR_BIT_INTIGER_MARKER then
        (case read_buffer 4 s of
           (Inl e, s1) \<Rightarrow> (Inl e, s1)
         | (Inr u, s1) \<Rightarrow>
             (case read_buffer 4 s1 of
                (Inl e, s2) \<Rightarrow> (Inl e, s2)
              | (Inr l, s2) \<Rightarrow>
                  (let upperBits = readUInt32BE u; lowerBits = readUInt32BE l
                   in (Inr (js_shl upperBits 32 + lowerBits), s2))))
      else (Inr 0, s))"

text \<open>Lines 187-190: \<^verbatim>\<open>decoded[i] = encoded[i] ^ maskKey[i % 4]\<close>.\<close>

definition unmask :: "byte list \<Rightarrow> byte list \<Rightarrow> byte list" where
  "unmask maskKey encoded = map (\<lambda>i. (encoded ! i) XOR (maskKey ! (i mod 4))) [0..<length encoded]"

text \<open>
  Lines 197-208: the dispatch on the opcode. The parameter \<open>utf8\<close> stands for
  \<^verbatim>\<open>Buffer.from(decoded.toString("utf8"))\<close>, the bytes of the received text after
  decoding and encoding again (the identity on well-formed UTF-8).
\<close>

definition echo_prefix :: "byte list" where
  "echo_prefix = map (\<lambda>c. of_nat (of_char c)) ''Echo: ''"

definition dispatch :: "(byte list \<Rightarrow> byte list) \<Rightarrow> byte \<Rightarrow> byte list \<Rightarrow> socket \<Rightarrow> js_error option \<times> socket" where
  "dispatch utf8 opc dec s =
     (if opc = OPCODES_TEXT then sendMessage (echo_prefix @ utf8 dec) s OPCODES_TEXT
      else if opc = OPCODES_CLOSE then (None, socket_end s)
      else if opc = OPCODES_PING then (None, sendPong dec s)
      else (None, s))"

text \<open>
  Lines 174-208: the mask key, the payload, the unmasking and the dispatch. A
  \<^verbatim>\<open>null\<close> mask key is only noticed when the loop indexes it.
\<close>

definition readPayload :: "(byte list \<Rightarrow> byte list) \<Rightarrow> bool \<Rightarrow> byte \<Rightarrow> bool \<Rightarrow> int \<Rightarrow> socket \<Rightarrow> outcome \<times> socket" where
  "readPayload utf8 fin opc msk len s =
     (case socket_read 4 s of
        (Inl e, s1) \<Rightarrow> (Thrown e, s1)
      | (Inr maskKey, s1) \<Rightarrow>
          (case socket_read len s1 of
             (Inl e, s2) \<Rightarrow> (Thrown e, s2)
           | (Inr None, s2) \<Rightarrow> (ReadFailed, s2)
           | (Inr (Some encoded), s2) \<Rightarrow>
               (case maskKey of
                  None \<Rightarrow> (Thrown TypeError, s2)
                | Some key \<Rightarrow>
                    (let dec = unmask key encoded;
                         fr = \<lparr>isFinalFrame = fin, opcode = opc, isMasked = msk,
                               messageLength = len, decoded = dec\<rparr>
                     in (case dispatch utf8 opc dec s2 of
                           (e, s3) \<Rightarrow> (Received fr e, s3))))))"

text \<open>\<^verbatim>\<open>onSocketreadable(socket)\<close>, lines 144-209.\<close>

definition onSocketreadable :: "(byte list \<Rightarrow> byte list) \<Rightarrow> socket \<Rightarrow> outcome \<times> socket" where
  "onSocketreadable utf8 s =
     (case socket_read 1 s of
        (Inl e, s1) \<Rightarrow> (Thrown e, s1)
      | (Inr None, s1) \<Rightarrow> (NoData, s1)
      | (Inr (Some firstByteBuffer), s1) \<Rightarrow>
          (let firstByte = firstByteBuffer ! 0;
               fin = (firstByte AND 0x80 \<noteq> 0);
               opc = firstByte AND 0x0f
           in (case read_buffer 1 s1 of
                 (Inl e, s2) \<Rightarrow> (Thrown e, s2)
               | (Inr secondByteBuffer, s2) \<Rightarrow>
                   (let secondByte = secondByteBuffer ! 0;
                        msk = (secondByte AND 0x80 \<noteq> 0)
                    in (case readMessageLength (lengthIndicatorInBits secondByte) s2 of
                          (Inl e, s3) \<Rightarrow> (Thrown e, s3)
                        | (Inr len, s3) \<Rightarrow> readPayload utf8 fin opc msk len s3)))))"

text \<open>
  One read from the transport moves at most 65536 bytes of what the peer has sent to
  the bytes not yet read; what is beyond stays with the transport for the next read.
  The \<^verbatim>\<open>readable\<close> event then runs the handler once.
\<close>

definition arrive :: "byte list \<Rightarrow> socket \<Rightarrow> socket" where
  "arrive chunk s = s\<lparr>inbuf := inbuf s @ take 65536 chunk\<rparr>"

definition fresh :: socket where
  "fresh = \<lparr>inbuf = [], outbuf = [], ended = False, destroyed = False\<rparr>"

text \<open>
  The peer sends the pieces one after the other. Each piece is read, and the handler
  run, once for every 65536 bytes of it or part thereof. Nothing more is read once
  the socket is destroyed.
\<close>

function feed :: "(byte list \<Rightarrow> byte list) \<Rightarrow> byte list list \<Rightarrow> socket \<Rightarrow> outcome list \<times> socket" where
  "feed utf8 [] s = ([], s)"
| "feed utf8 (piece # pieces) s =
     (if destroyed s then ([], s)
      else (case onSocketreadable utf8 (arrive piece s) of
              (out, s1) \<Rightarrow>
                (case feed utf8
                        (if length piece \<le> 65536 then pieces else drop 65536 piece # pieces) s1 of
                   (outs, s2) \<Rightarrow> (out # outs, s2))))"
  by pat_completeness auto
termination
  by (relation "measure (\<lambda>(utf8, pieces, s). sum_list (map length pieces) + length pieces)") auto

text \<open>The frames a run of calls decoded, in order.\<close>

fun frames_of :: "outcome list \<Rightarrow> frame list" where
  "frames_of [] = []"
| "frames_of (Received fr e # outs) = fr # frames_of outs"
| "frames_of (out # outs) = frames_of outs"

subsection \<open>The handshake\<close>

text \<open>
  \<^verbatim>\<open>createSocketAccept\<close> (lines 328-332) calls Node's
  \<^verbatim>\<open>crypto.createHash("sha1")\<close>, \<^verbatim>\<open>update\<close> and \<^verbatim>\<open>digest("base64")\<close>. The two
  library functions are modelled by what they are documented to compute: SHA-1 as in
  FIPS 180-4 over the UTF-8 bytes of the string, and the Base64 encoding of RFC 4648
  with padding. A string is a list of bytes here, so it is its own UTF-8 encoding.
\<close>

definition bytes_of :: "string \<Rightarrow> byte list" where
  "bytes_of str = map (\<lambda>c. of_nat (of_char c)) str"

definition rotl :: "nat \<Rightarrow> 32 word \<Rightarrow> 32 word" where
  "rotl n x = push_bit n x OR drop_bit (32 - n) x"

text \<open>
  Padding: the byte \<open>0x80\<close>, zero bytes up to 56 modulo 64, and the length of the
  message in bits as a 64-bit big-endian integer.
\<close>

definition sha1_pad :: "byte list \<Rightarrow> byte list" where
  "sha1_pad m =
     m @ [0x80] @ replicate ((119 - length m mod 64) mod 64) 0
       @ map (\<lambda>i. ucast (drop_bit (8 * (7 - i)) (of_nat (8 * length m) :: 64 word)))
           [0, 1, 2, 3, 4, 5, 6, 7]"

text \<open>The big-endian 32-bit words of a block.\<close>

fun be32s :: "byte list \<Rightarrow> 32 word list" where
  "be32s (b0 # b1 # b2 # b3 # bs) =
     (push_bit 24 (ucast b0) OR push_bit 16 (ucast b1) OR push_bit 8 (ucast b2) OR ucast b3)
       # be32s bs"
| "be32s bs = []"

text \<open>
  The message schedule: \<open>expand n w\<close> gives the next \<open>n\<close> words after the window \<open>w\<close>
  of the last sixteen, \<open>W\<^sub>t = rotl 1 (W\<^bsub>t-3\<^esub> XOR W\<^bsub>t-8\<^esub> XOR W\<^bsub>t-14\<^esub> XOR W\<^bsub>t-16\<^esub>)\<close>.
\<close>

fun expand :: "nat \<Rightarrow> 32 word list \<Rightarrow> 32 word list" where
  "expand 0 w = []"
| "expand (Suc n) w =
     rotl 1 (w ! 13 XOR w ! 8 XOR w ! 2 XOR w ! 0)
       # expand n (tl w @ [rotl 1 (w ! 13 XOR w ! 8 XOR w ! 2 XOR w ! 0)])"

definition sha1_f :: "nat \<Rightarrow> 32 word \<Rightarrow> 32 word \<Rightarrow> 32 word \<Rightarrow> 32 word" where
  "sha1_f t b c d =
     (if t < 20 then (b AND c) OR (NOT b AND d)
      else if t < 40 then b XOR c XOR d
      else if t < 60 then (b AND c) OR (b AND d) OR (c AND d)
      else b XOR c XOR d)"

definition sha1_k :: "nat \<Rightarrow> 32 word" where
  "sha1_k t =
     (if t < 20 then 0x5A827999 else if t < 40 then 0x6ED9EBA1
      else if t < 60 then 0x8F1BBCDC else 0xCA62C1D6)"

type_synonym sha1_state = "32 word \<times> 32 word \<times> 32 word \<times> 32 word \<times> 32 word"

text \<open>The rounds \<open>t, t + 1, ...\<close> over the schedule words that are left.\<close>

fun sha1_rounds :: "nat \<Rightarrow> 32 word list \<Rightarrow> sha1_state \<Rightarrow> sha1_state" where
  "sha1_rounds t [] st = st"
| "sha1_rounds t (w # ws) (a, b, c, d, e) =
     sha1_rounds (t + 1) ws
       (rotl 5 a + sha1_f t b c d + e + sha1_k t + w, a, rotl 30 b, c, d)"

definition sha1_block :: "sha1_state \<Rightarrow> byte list \<Rightarrow> sha1_state" where
  "sha1_block h block =
     (case h of (h0, h1, h2, h3, h4) \<Rightarrow>
        (case sha1_rounds 0 (be32s block @ expand 64 (be32s block)) h of
           (a, b, c, d, e) \<Rightarrow> (h0 + a, h1 + b, h2 + c, h3 + d, h4 + e)))"

function sha1_blocks :: "sha1_state \<Rightarrow> byte list \<Rightarrow> sha1_state" where
  "sha1_blocks h m =
     (if length m < 64 then h else sha1_blocks (sha1_block h (take 64 m)) (drop 64 m))"
  by pat_completeness auto
termination
  by (relation "measure (\<lambda>(h, m). length m)") auto

declare sha1_blocks.simps [simp del]

definition word_bytes :: "32 word \<Rightarrow> byte list" where
  "word_bytes x = [ucast (drop_bit 24 x), ucast (drop_bit 16 x), ucast (drop_bit 8 x), ucast x]"

definition sha1 :: "byte list \<Rightarrow> byte list" where
  "sha1 m =
     (case sha1_blocks (0x67452301, 0xEFCDAB89, 0x98BADCFE, 0x10325476, 0xC3D2E1F0)
             (sha1_pad m) of
        (h0, h1, h2, h3, h4) \<Rightarrow>
          word_bytes h0 @ word_bytes h1 @ word_bytes h2 @ word_bytes h3 @ word_bytes h4)"

definition b64_alphabet :: string where
  "b64_alphabet = ''ABCDEFGHIJKLMNOPQRSTUVWXYZabcdefghijklmnopqrstuvwxyz0123456789+/''"

definition b64_char :: "byte \<Rightarrow> char" where
  "b64_char x = b64_alphabet ! unat x"

fun base64 :: "byte list \<Rightarrow> string" where
  "base64 (a # b # c # rest) =
     [b64_char (drop_bit 2 a), b64_char (push_bit 4 (a AND 3) OR drop_bit 4 b),
      b64_char (push_bit 2 (b AND 15) OR drop_bit 6 c), b64_char (c AND 63)] @ base64 rest"
| "base64 [a, b] =
     [b64_char (drop_bit 2 a), b64_char (push_bit 4 (a AND 3) OR drop_bit 4 b),
      b64_char (push_bit 2 (b AND 15)), CHR ''='']"
| "base64 [a] =
     [b64_char (drop_bit 2 a), b64_char (push_bit 4 (a AND 3)), CHR ''='', CHR ''='']"
| "base64 [] = []"

text \<open>\<^verbatim>\<open>createSocketAccept(clientKey)\<close>, lines 328-332.\<close>

definition createSocketAccept :: "string \<Rightarrow> string" where
  "createSocketAccept clientKey = base64 (sha1 (bytes_of (clientKey @ WEB_SOCKET_MAGIC_STRING)))"

text \<open>
  \<^verbatim>\<open>prepareHandshakeHeader(clientKey)\<close>, lines 303-313: five strings joined with
  \<^verbatim>\<open>"\r\n"\<close>, the last of them \<^verbatim>\<open>"\r\n"\<close> itself. \<open>join\<close> is \<^verbatim>\<open>Array.prototype.join\<close>.
\<close>

definition CRLF :: string where
  "CRLF = [CHR 0x0D, CHR 0x0A]"

fun join :: "string \<Rightarrow> string list \<Rightarrow> string" where
  "join sep [] = []"
| "join sep [x] = x"
| "join sep (x # y # ys) = x @ sep @ join sep (y # ys)"

definition prepareHandshakeHeader :: "string \<Rightarrow> string" where
  "prepareHandshakeHeader clientKey =
     (let acceptKey = createSocketAccept clientKey;
          header = join CRLF
            [''HTTP/1.1 101 Switching Protocols'',
             ''Upgrade: websocket'',
             ''Connection: Upgrade'',
             ''Sec-WebSocket-Accept: '' @ acceptKey,
             CRLF]
      in header)"

section \<open>Helper lemmas\<close>

lemmas marker_defs = SEVEN_BIT_INTIGER_MARKER_def SIXTEEN_BIT_INTIGER_MARKER_def
  SIXTYFOUR_BIT_INTIGER_MARKER_def FIRST_BIT_def

lemmas opcode_defs = OPCODES_TEXT_def OPCODES_CLOSE_def OPCODES_PING_def OPCODES_PONG_def

lemmas handler_defs = socket_read_def read_buffer_def readMessageLength_def readPayload_def
  onSocketreadable_def lengthIndicatorInBits_def

lemmas send_defs = dispatch_def sendMessage_def sendPong_def socket_write_def
  socket_end_def lengthEncoding_def writeUInt16BE_def writeUInt32BE_def echo_prefix_def

lemmas eval_defs = handler_defs send_defs marker_defs opcode_defs unmask_def arrive_def fresh_def
  readUInt16BE_def readUInt32BE_def js_shl_def Let_def

subsection \<open>Bytes\<close>

lemma uint_byte_bound: "uint (b::byte) < 256"
  using uint_bounded [of b] by simp

text \<open>The test \<^verbatim>\<open>secondByte & 0x80\<close> reads the top bit of the byte.\<close>

lemma mask_bit_iff: "(b AND (0x80::byte) \<noteq> 0) = (128 \<le> uint b)"
proof -
  have "(b AND 0x80 \<noteq> 0) = (b AND 2 ^ 7 \<noteq> 0)" by simp
  also have "\<dots> = bit b 7" by (simp only: and_exp_eq_0_iff_not_bit not_not)
  also have "\<dots> = bit (uint b) 7" by (simp add: bit_uint_iff)
  also have "\<dots> = odd (uint b div 2 ^ 7)" by (simp only: bit_iff_odd)
  also have "\<dots> = (128 \<le> uint b)"
    using uint_byte_bound [of b] uint_ge_0 [of b] by (simp, presburger)
  finally show ?thesis .
qed

lemma uint_len7: "n \<le> 125 \<Longrightarrow> uint (0x80 + of_nat n :: byte) = 128 + int n"
  by (simp add: uint_word_ariths unsigned_of_nat take_bit_eq_mod)

lemma uint_of_nat_byte: "uint (of_nat n :: byte) = int (n mod 256)"
  by (simp add: unsigned_of_nat take_bit_eq_mod)

lemma readUInt16BE_writeUInt16BE:
  assumes "n \<le> 65535"
  shows "readUInt16BE (writeUInt16BE n) = int n"
proof -
  have "n div 256 < 256" using assms by simp
  then have hi: "n div 256 mod 256 = n div 256" by simp
  have "int (n div 256) * 256 + int (n mod 256) = int n"
    by (simp add: zdiv_int zmod_int)
  then show ?thesis
    by (simp add: readUInt16BE_def writeUInt16BE_def uint_of_nat_byte hi)
qed

lemma readUInt32BE_bytes:
  assumes "n < 2 ^ 32"
  shows "readUInt32BE [of_nat (n div 2 ^ 24), of_nat (n div 2 ^ 16), of_nat (n div 2 ^ 8), of_nat n]
       = int n"
proof -
  define q1 where "q1 = n div 256"
  define q2 where "q2 = q1 div 256"
  define q3 where "q3 = q2 div 256"
  have d2: "n div 2 ^ 16 = q2"
    by (simp add: q2_def q1_def div_mult2_eq)
  have d3: "n div 2 ^ 24 = q3"
    by (simp add: q3_def q2_def q1_def div_mult2_eq)
  have d1: "n div 2 ^ 8 = q1"
    by (simp add: q1_def)
  have "q3 < 256"
    using assms unfolding d3 [symmetric] by simp
  then have m3: "q3 mod 256 = q3" by simp
  have e1: "n = q1 * 256 + n mod 256"
    unfolding q1_def by (simp only: div_mult_mod_eq)
  have e2: "q1 = q2 * 256 + q1 mod 256"
    unfolding q2_def by (simp only: div_mult_mod_eq)
  have e3: "q2 = q3 * 256 + q2 mod 256"
    unfolding q3_def by (simp only: div_mult_mod_eq)
  have "q3 * 16777216 + q2 mod 256 * 65536 + q1 mod 256 * 256 + n mod 256 = n"
    using e1 e2 e3 by linarith
  then have "int (q3 * 16777216 + q2 mod 256 * 65536 + q1 mod 256 * 256 + n mod 256) = int n"
    by simp
  then have "int q3 * 16777216 + int (q2 mod 256) * 65536 + int (q1 mod 256) * 256
      + int (n mod 256) = int n"
    by (simp only: of_nat_add of_nat_mult of_nat_numeral)
  then show ?thesis
    unfolding readUInt32BE_def d1 d2 d3
    by (simp add: uint_of_nat_byte m3)
qed

subsection \<open>A complete masked frame in the buffer\<close>

text \<open>
  When the whole of a masked frame with a non-empty payload is buffered, one call
  reads exactly its bytes, unmasks the payload and runs the dispatch: first for the
  7-bit length form, then for the 16-bit form, then for the 64-bit form with an upper
  half of 0 and a payload of at most 1 GiB.
\<close>

lemma socket_read_append:
  "0 < length bs \<Longrightarrow> length bs \<le> 2 ^ 30 \<Longrightarrow> inbuf s = bs @ rest \<Longrightarrow>
   socket_read (int (length bs)) s = (Inr (Some bs), s\<lparr>inbuf := rest\<rparr>)"
  by (simp add: socket_read_def)

lemma onSocketreadable_frame7:
  assumes buf: "inbuf s = b1 # b2 # key @ enc @ rest"
    and key: "length key = 4"
    and enc: "enc \<noteq> []" "length enc \<le> 125"
    and b2: "b2 = 0x80 + of_nat (length enc)"
  shows "onSocketreadable utf8 s =
    (case dispatch utf8 (b1 AND 0x0f) (unmask key enc) (s\<lparr>inbuf := rest\<rparr>) of
       (e, s') \<Rightarrow>
         (Received \<lparr>isFinalFrame = (b1 AND 0x80 \<noteq> 0), opcode = b1 AND 0x0f, isMasked = True,
                    messageLength = int (length enc), decoded = unmask key enc\<rparr> e, s'))"
proof -
  have u: "uint b2 = 128 + int (length enc)"
    using enc b2 by (simp add: uint_len7)
  have m: "b2 AND 0x80 \<noteq> 0"
    using u by (simp add: mask_bit_iff)
  have r1: "socket_read 1 s = (Inr (Some [b1]), s\<lparr>inbuf := b2 # key @ enc @ rest\<rparr>)"
    using buf by (simp add: socket_read_def)
  have r2: "read_buffer 1 (s\<lparr>inbuf := b2 # key @ enc @ rest\<rparr>)
      = (Inr [b2], s\<lparr>inbuf := key @ enc @ rest\<rparr>)"
    by (simp add: read_buffer_def socket_read_def)
  have r3: "readMessageLength (lengthIndicatorInBits b2) (s\<lparr>inbuf := key @ enc @ rest\<rparr>)
      = (Inr (int (length enc)), s\<lparr>inbuf := key @ enc @ rest\<rparr>)"
    using u enc by (simp add: readMessageLength_def lengthIndicatorInBits_def marker_defs)
  have r4: "socket_read 4 (s\<lparr>inbuf := key @ enc @ rest\<rparr>)
      = (Inr (Some key), s\<lparr>inbuf := enc @ rest\<rparr>)"
    using socket_read_append [of key "s\<lparr>inbuf := key @ enc @ rest\<rparr>" "enc @ rest"] key
    by simp
  have r5: "socket_read (int (length enc)) (s\<lparr>inbuf := enc @ rest\<rparr>)
      = (Inr (Some enc), s\<lparr>inbuf := rest\<rparr>)"
    using socket_read_append [of enc "s\<lparr>inbuf := enc @ rest\<rparr>" rest] enc
    by simp
  show ?thesis
    by (simp add: onSocketreadable_def r1 r2 r3 readPayload_def r4 r5 m split: prod.splits)
qed

lemma onSocketreadable_frame16:
  assumes buf: "inbuf s = b1 # 0xFE # hi # lo # key @ enc @ rest"
    and key: "length key = 4"
    and enc: "enc \<noteq> []" "int (length enc) = uint hi * 256 + uint lo"
  shows "onSocketreadable utf8 s =
    (case dispatch utf8 (b1 AND 0x0f) (unmask key enc) (s\<lparr>inbuf := rest\<rparr>) of
       (e, s') \<Rightarrow>
         (Received \<lparr>isFinalFrame = (b1 AND 0x80 \<noteq> 0), opcode = b1 AND 0x0f, isMasked = True,
                    messageLength = int (length enc), decoded = unmask key enc\<rparr> e, s'))"
proof -
  have small: "length enc \<le> 2 ^ 30"
    using enc(2) uint_byte_bound [of hi] uint_byte_bound [of lo] by simp
  have r1: "socket_read 1 s = (Inr (Some [b1]), s\<lparr>inbuf := 0xFE # hi # lo # key @ enc @ rest\<rparr>)"
    using buf by (simp add: socket_read_def)
  have r2: "read_buffer 1 (s\<lparr>inbuf := 0xFE # hi # lo # key @ enc @ rest\<rparr>)
      = (Inr [0xFE], s\<lparr>inbuf := hi # lo # key @ enc @ rest\<rparr>)"
    by (simp add: read_buffer_def socket_read_def)
  have r3: "readMessageLength (lengthIndicatorInBits 0xFE) (s\<lparr>inbuf := hi # lo # key @ enc @ rest\<rparr>)
      = (Inr (int (length enc)), s\<lparr>inbuf := key @ enc @ rest\<rparr>)"
    using enc(2)
    by (simp add: readMessageLength_def lengthIndicatorInBits_def marker_defs read_buffer_def
        socket_read_def readUInt16BE_def)
  have r4: "socket_read 4 (s\<lparr>inbuf := key @ enc @ rest\<rparr>)
      = (Inr (Some key), s\<lparr>inbuf := enc @ rest\<rparr>)"
    using socket_read_append [of key "s\<lparr>inbuf := key @ enc @ rest\<rparr>" "enc @ rest"] key
    by simp
  have r5: "socket_read (int (length enc)) (s\<lparr>inbuf := enc @ rest\<rparr>)
      = (Inr (Some enc), s\<lparr>inbuf := rest\<rparr>)"
    using socket_read_append [of enc "s\<lparr>inbuf := enc @ rest\<rparr>" rest] enc(1) small
    by simp
  show ?thesis
    by (simp add: onSocketreadable_def r1 r2 r3 readPayload_def r4 r5 split: prod.splits)
qed

lemma onSocketreadable_frame64:
  assumes buf: "inbuf s = b1 # 0xFF # 0 # 0 # 0 # 0 # l3 # l2 # l1 # l0 # key @ enc @ rest"
    and key: "length key = 4"
    and enc: "enc \<noteq> []" "int (length enc) = readUInt32BE [l3, l2, l1, l0]"
      "length enc \<le> 2 ^ 30"
  shows "onSocketreadable utf8 s =
    (case dispatch utf8 (b1 AND 0x0f) (unmask key enc) (s\<lparr>inbuf := rest\<rparr>) of
       (e, s') \<Rightarrow>
         (Received \<lparr>isFinalFrame = (b1 AND 0x80 \<noteq> 0), opcode = b1 AND 0x0f, isMasked = True,
                    messageLength = int (length enc), decoded = unmask key enc\<rparr> e, s'))"
proof -
  have r1: "socket_read 1 s
      = (Inr (Some [b1]), s\<lparr>inbuf := 0xFF # 0 # 0 # 0 # 0 # l3 # l2 # l1 # l0 # key @ enc @ rest\<rparr>)"
    using buf by (simp add: socket_read_def)
  have r2: "read_buffer 1 (s\<lparr>inbuf := 0xFF # 0 # 0 # 0 # 0 # l3 # l2 # l1 # l0 # key @ enc @ rest\<rparr>)
      = (Inr [0xFF], s\<lparr>inbuf := 0 # 0 # 0 # 0 # l3 # l2 # l1 # l0 # key @ enc @ rest\<rparr>)"
    by (simp add: read_buffer_def socket_read_def)
  have u: "read_buffer 4 (s\<lparr>inbuf := 0 # 0 # 0 # 0 # l3 # l2 # l1 # l0 # key @ enc @ rest\<rparr>)
      = (Inr [0, 0, 0, 0], s\<lparr>inbuf := l3 # l2 # l1 # l0 # key @ enc @ rest\<rparr>)"
    by (simp add: read_buffer_def socket_read_def)
  have l: "read_buffer 4 (s\<lparr>inbuf := l3 # l2 # l1 # l0 # key @ enc @ rest\<rparr>)
      = (Inr [l3, l2, l1, l0], s\<lparr>inbuf := key @ enc @ rest\<rparr>)"
    by (simp add: read_buffer_def socket_read_def)
  have z: "js_shl (readUInt32BE [0, 0, 0, 0]) 32 = 0"
    by (simp add: js_shl_def readUInt32BE_def)
  have r3: "readMessageLength (lengthIndicatorInBits 0xFF)
        (s\<lparr>inbuf := 0 # 0 # 0 # 0 # l3 # l2 # l1 # l0 # key @ enc @ rest\<rparr>)
      = (Inr (int (length enc)), s\<lparr>inbuf := key @ enc @ rest\<rparr>)"
    using enc(2)
    by (simp add: readMessageLength_def lengthIndicatorInBits_def marker_defs u l z)
  have r4: "socket_read 4 (s\<lparr>inbuf := key @ enc @ rest\<rparr>)
      = (Inr (Some key), s\<lparr>inbuf := enc @ rest\<rparr>)"
    using socket_read_append [of key "s\<lparr>inbuf := key @ enc @ rest\<rparr>" "enc @ rest"] key
    by simp
  have r5: "socket_read (int (length enc)) (s\<lparr>inbuf := enc @ rest\<rparr>)
      = (Inr (Some enc), s\<lparr>inbuf := rest\<rparr>)"
    using socket_read_append [of enc "s\<lparr>inbuf := enc @ rest\<rparr>" rest] enc(1) enc(3)
    by simp
  show ?thesis
    by (simp add: onSocketreadable_def r1 r2 r3 readPayload_def r4 r5 split: prod.splits)
qed

subsection \<open>What a call leaves alone\<close>

text \<open>
  Reading never writes and never ends the connection, and the buffer only shrinks.
  The dispatch touches the buffer for no opcode, and does nothing at all for an opcode
  other than Text, Close and Ping.
\<close>

lemma socket_read_out: "outbuf (snd (socket_read n s)) = outbuf s \<and> ended (snd (socket_read n s)) = ended s"
  by (simp add: socket_read_def)

lemma socket_read_len: "length (inbuf (snd (socket_read n s))) \<le> length (inbuf s)"
  by (simp add: socket_read_def)

lemma read_buffer_out: "outbuf (snd (read_buffer n s)) = outbuf s \<and> ended (snd (read_buffer n s)) = ended s"
  by (simp add: read_buffer_def socket_read_def)

lemma read_buffer_len: "length (inbuf (snd (read_buffer n s))) \<le> length (inbuf s)"
  by (simp add: read_buffer_def socket_read_def)

lemma snd_readMessageLength:
  "snd (readMessageLength i s) =
     (if i \<le> 125 then s
      else if i = 126 then snd (read_buffer 2 s)
      else if i = 127 then
        (case fst (read_buffer 4 s) of
           Inl e \<Rightarrow> snd (read_buffer 4 s)
         | Inr u \<Rightarrow> snd (read_buffer 4 (snd (read_buffer 4 s))))
      else s)"
  by (simp add: readMessageLength_def marker_defs Let_def split: prod.splits sum.splits)

lemma readMessageLength_out:
  "outbuf (snd (readMessageLength i s)) = outbuf s \<and> ended (snd (readMessageLength i s)) = ended s"
  by (simp add: snd_readMessageLength read_buffer_out split: sum.splits)

lemma readMessageLength_len: "length (inbuf (snd (readMessageLength i s))) \<le> length (inbuf s)"
proof -
  have "length (inbuf (snd (read_buffer 4 (snd (read_buffer 4 s))))) \<le> length (inbuf s)"
    using read_buffer_len [of 4 "snd (read_buffer 4 s)"] read_buffer_len [of 4 s] by simp
  then show ?thesis
    by (simp add: snd_readMessageLength read_buffer_len split: sum.splits)
qed

lemma dispatch_inbuf: "inbuf (snd (dispatch utf8 opc dec s)) = inbuf s"
  by (simp add: send_defs Let_def split: sum.splits prod.splits)

lemma dispatch_other:
  "opc \<noteq> OPCODES_TEXT \<Longrightarrow> opc \<noteq> OPCODES_CLOSE \<Longrightarrow> opc \<noteq> OPCODES_PING \<Longrightarrow>
   dispatch utf8 opc dec s = (None, s)"
  by (simp add: dispatch_def)

lemma readPayload_len: "length (inbuf (snd (readPayload utf8 fin opc msk len s))) \<le> length (inbuf s)"
proof -
  obtain x s1 where a: "socket_read 4 s = (x, s1)" by (cases "socket_read 4 s")
  obtain y s2 where b: "socket_read len s1 = (y, s2)" by (cases "socket_read len s1")
  have l1: "length (inbuf s1) \<le> length (inbuf s)"
    using socket_read_len [of 4 s] a by simp
  have l2: "length (inbuf s2) \<le> length (inbuf s1)"
    using socket_read_len [of len s1] b by simp
  show ?thesis
    using l1 l2 dispatch_inbuf [of utf8 opc _ s2]
    by (auto simp add: readPayload_def a b Let_def split: sum.splits option.splits prod.splits)
      (metis dispatch_inbuf order_trans snd_conv)
qed

lemma readPayload_other:
  assumes "opc \<noteq> OPCODES_TEXT" "opc \<noteq> OPCODES_CLOSE" "opc \<noteq> OPCODES_PING"
  shows "outbuf (snd (readPayload utf8 fin opc msk len s)) = outbuf s
       \<and> ended (snd (readPayload utf8 fin opc msk len s)) = ended s"
proof -
  obtain x s1 where a: "socket_read 4 s = (x, s1)" by (cases "socket_read 4 s")
  obtain y s2 where b: "socket_read len s1 = (y, s2)" by (cases "socket_read len s1")
  have l1: "outbuf s1 = outbuf s \<and> ended s1 = ended s"
    using socket_read_out [of 4 s] a by simp
  have l2: "outbuf s2 = outbuf s1 \<and> ended s2 = ended s1"
    using socket_read_out [of len s1] b by simp
  show ?thesis
    using l1 l2 assms
    by (auto simp add: readPayload_def a b Let_def dispatch_other split: sum.splits option.splits)
qed

lemma onSocketreadable_consumes:
  assumes "inbuf s \<noteq> []"
  shows "length (inbuf (snd (onSocketreadable utf8 s))) < length (inbuf s)"
proof -
  obtain b1 bs where buf: "inbuf s = b1 # bs"
    using assms by (cases "inbuf s") simp_all
  let ?s1 = "s\<lparr>inbuf := bs\<rparr>"
  have r1: "socket_read 1 s = (Inr (Some [b1]), ?s1)"
    using buf by (simp add: socket_read_def)
  obtain x s2 where a: "read_buffer 1 ?s1 = (x, s2)" by (cases "read_buffer 1 ?s1")
  have l2: "length (inbuf s2) \<le> length bs"
    using read_buffer_len [of 1 ?s1] a by simp
  show ?thesis
  proof (cases x)
    case (Inl e)
    then show ?thesis
      using l2 buf by (simp add: onSocketreadable_def r1 a)
  next
    case (Inr sb)
    obtain y s3 where b: "readMessageLength (lengthIndicatorInBits (sb ! 0)) s2 = (y, s3)"
      by (cases "readMessageLength (lengthIndicatorInBits (sb ! 0)) s2")
    have l3: "length (inbuf s3) \<le> length (inbuf s2)"
      using readMessageLength_len [of "lengthIndicatorInBits (sb ! 0)" s2] b by simp
    show ?thesis
    proof (cases y)
      case (Inl e)
      then show ?thesis
        using l2 l3 buf Inr by (simp add: onSocketreadable_def r1 a b Let_def)
    next
      case (Inr len)
      have "length (inbuf (snd (readPayload utf8 (b1 AND 0x80 \<noteq> 0) (b1 AND 0x0f) (sb ! 0 AND 0x80 \<noteq> 0) len s3)))
          \<le> length (inbuf s3)"
        by (rule readPayload_len)
      then show ?thesis
        using l2 l3 buf Inr \<open>x = Inr sb\<close> by (simp add: onSocketreadable_def r1 a b Let_def)
    qed
  qed
qed

lemma onSocketreadable_other:
  assumes buf: "inbuf s = b1 # bs"
    and opc: "b1 AND 0x0f \<noteq> OPCODES_TEXT" "b1 AND 0x0f \<noteq> OPCODES_CLOSE" "b1 AND 0x0f \<noteq> OPCODES_PING"
  shows "outbuf (snd (onSocketreadable utf8 s)) = outbuf s
       \<and> ended (snd (onSocketreadable utf8 s)) = ended s"
proof -
  let ?s1 = "s\<lparr>inbuf := bs\<rparr>"
  have r1: "socket_read 1 s = (Inr (Some [b1]), ?s1)"
    using buf by (simp add: socket_read_def)
  obtain x s2 where a: "read_buffer 1 ?s1 = (x, s2)" by (cases "read_buffer 1 ?s1")
  have l2: "outbuf s2 = outbuf s \<and> ended s2 = ended s"
    using read_buffer_out [of 1 ?s1] a by simp
  show ?thesis
  proof (cases x)
    case (Inl e)
    then show ?thesis
      using l2 by (simp add: onSocketreadable_def r1 a)
  next
    case (Inr sb)
    obtain y s3 where b: "readMessageLength (lengthIndicatorInBits (sb ! 0)) s2 = (y, s3)"
      by (cases "readMessageLength (lengthIndicatorInBits (sb ! 0)) s2")
    have l3: "outbuf s3 = outbuf s2 \<and> ended s3 = ended s2"
      using readMessageLength_out [of "lengthIndicatorInBits (sb ! 0)" s2] b by simp
    show ?thesis
    proof (cases y)
      case (Inl e)
      then show ?thesis
        using l2 l3 Inr by (simp add: onSocketreadable_def r1 a b Let_def)
    next
      case (Inr len)
      then show ?thesis
        using l2 l3 \<open>x = Inr sb\<close>
          readPayload_other [OF opc, of utf8 "b1 AND 0x80 \<noteq> 0" "sb ! 0 AND 0x80 \<noteq> 0" len s3]
        by (simp add: onSocketreadable_def r1 a b Let_def)
    qed
  qed
qed

subsection \<open>Evaluating SHA-1\<close>

text \<open>
  The digest of a concrete message is computed in steps, each a lemma of its own: the
  padded message, the schedule of each block, the eighty rounds in four runs of twenty,
  and the block function. The first message is the test vector \<open>abc\<close> of FIPS 180,
  whose digest is \<open>a9993e36 4706816a ba3e2571 7850c26c 9cd0d89d\<close>; the second is the
  sample key of RFC 6455 followed by the protocol's GUID.
\<close>

lemma expand_numeral:
  "expand (numeral k) w =
     rotl 1 (w ! 13 XOR w ! 8 XOR w ! 2 XOR w ! 0)
       # expand (pred_numeral k) (tl w @ [rotl 1 (w ! 13 XOR w ! 8 XOR w ! 2 XOR w ! 0)])"
  by (simp add: numeral_eq_Suc)

lemma sha1_rounds_append:
  "sha1_rounds t (xs @ ys) st = sha1_rounds (t + length xs) ys (sha1_rounds t xs st)"
  by (induction t xs st rule: sha1_rounds.induct) simp_all

lemma length_twenty:
  "length [x1, x2, x3, x4, x5, x6, x7, x8, x9, x10,
           x11, x12, x13, x14, x15, x16, x17, x18, x19, x20] = 20"
  by simp

lemma sha1_rounds_four:
  "length A = 20 \<Longrightarrow> length B = 20 \<Longrightarrow> length C = 20 \<Longrightarrow>
   sha1_rounds 0 (A @ B @ C @ D) st
     = sha1_rounds 60 D (sha1_rounds 40 C (sha1_rounds 20 B (sha1_rounds 0 A st)))"
  by (simp add: sha1_rounds_append)

lemma abc_pad:
  "sha1_pad (bytes_of ''abc'') =
     [97, 98, 99, 128, 0, 0, 0, 0, 0, 0, 0, 0, 0, 0, 0, 0, 0, 0, 0, 0, 0, 0, 0, 0, 0, 0, 0, 0,
      0, 0, 0, 0, 0, 0, 0, 0, 0, 0, 0, 0, 0, 0, 0, 0, 0, 0, 0, 0, 0, 0, 0, 0, 0, 0, 0, 0, 0, 0,
      0, 0, 0, 0, 0, 24]"
  by code_simp

lemma abc_schedule_1:
  "expand 64
     [1633837952, 0, 0, 0, 0, 0, 0, 0, 0, 0, 0, 0, 0, 0, 0, 24] =
     [3267675904, 0, 48, 2240384513, 0, 96, 185801731, 48, 2240384705, 371603462, 0, 384,
      743206924, 240, 2477765895, 1486413896, 2392494594, 1536, 2972827888, 371604422,
      1321128990, 1650688161, 371603462, 6336, 3537975492, 3840, 989548665, 2307785957,
      3803855915, 24768, 87701453, 1950713159, 3667138029, 641206806, 1650688929, 1321161950,
      943043659, 62976, 512018339, 2564836760, 1696405152, 1650822305, 1166361814, 1146637495,
      2074109465, 1669377698, 182801001, 1652246945, 2094292125, 983040, 4216354106,
      3966199272, 3124505570, 6340608, 976735493, 1166362356, 3092880854, 940186150, 31465987,
      3888919638, 3873835881, 16124416, 1469443919, 2184054905]"
  by (simp add: expand_numeral rotl_def)

lemma abc_rounds_1_1:
  "sha1_rounds 0
     [1633837952, 0, 0, 0, 0, 0, 0, 0, 0, 0, 0, 0, 0, 0, 0, 24, 3267675904, 0, 48, 2240384513]
     (1732584193, 4023233417, 2562383102, 271733878, 3285377520) =
     (4254997885, 3697578013, 548051402, 3550778888, 3358553483)"
  by (simp add: sha1_f_def sha1_k_def rotl_def)

lemma abc_rounds_1_2:
  "sha1_rounds 20
     [0, 96, 185801731, 48, 2240384705, 371603462, 0, 384, 743206924, 240, 2477765895,
      1486413896, 2392494594, 1536, 2972827888, 371604422, 1321128990, 1650688161, 371603462,
      6336]
     (4254997885, 3697578013, 548051402, 3550778888, 3358553483) =
     (853417146, 1285055493, 4145604047, 64243702, 4147047474)"
  by (simp add: sha1_f_def sha1_k_def rotl_def)

lemma abc_rounds_1_3:
  "sha1_rounds 40
     [3537975492, 3840, 989548665, 2307785957, 3803855915, 24768, 87701453, 1950713159,
      3667138029, 641206806, 1650688929, 1321161950, 943043659, 62976, 512018339, 2564836760,
      1696405152, 1650822305, 1166361814, 1146637495]
     (853417146, 1285055493, 4145604047, 64243702, 4147047474) =
     (1062395482, 165119485, 882425812, 4061233743, 3617133995)"
  by (simp add: sha1_f_def sha1_k_def rotl_def)

lemma abc_rounds_1_4:
  "sha1_rounds 60
     [2074109465, 1669377698, 182801001, 1652246945, 2094292125, 983040, 4216354106,
      3966199272, 3124505570, 6340608, 976735493, 1166362356, 3092880854, 940186150, 31465987,
      3888919638, 3873835881, 16124416, 1469443919, 2184054905]
     (1062395482, 165119485, 882425812, 4061233743, 3617133995) =
     (1112808245, 1463342561, 562251891, 1746824694, 3640522413)"
  by (simp add: sha1_f_def sha1_k_def rotl_def)

lemma abc_block_1:
  "sha1_block (1732584193, 4023233417, 2562383102, 271733878, 3285377520)
     [97, 98, 99, 128, 0, 0, 0, 0, 0, 0, 0, 0, 0, 0, 0, 0, 0, 0, 0, 0, 0, 0, 0, 0, 0, 0, 0, 0,
      0, 0, 0, 0, 0, 0, 0, 0, 0, 0, 0, 0, 0, 0, 0, 0, 0, 0, 0, 0, 0, 0, 0, 0, 0, 0, 0, 0, 0, 0,
      0, 0, 0, 0, 0, 24] =
     (2845392438, 1191608682, 3124634993, 2018558572, 2630932637)"
proof -
  have words: "be32s
     [97, 98, 99, 128, 0, 0, 0, 0, 0, 0, 0, 0, 0, 0, 0, 0, 0, 0, 0, 0, 0, 0, 0, 0, 0, 0, 0, 0,
      0, 0, 0, 0, 0, 0, 0, 0, 0, 0, 0, 0, 0, 0, 0, 0, 0, 0, 0, 0, 0, 0, 0, 0, 0, 0, 0, 0, 0, 0,
      0, 0, 0, 0, 0, 24] =
     [1633837952, 0, 0, 0, 0, 0, 0, 0, 0, 0, 0, 0, 0, 0, 0, 24]"
    by simp
  have parts: "[1633837952, 0, 0, 0, 0, 0, 0, 0, 0, 0, 0, 0, 0, 0, 0, 24, 3267675904, 0, 48, 2240384513,
      0, 96, 185801731, 48, 2240384705, 371603462, 0, 384, 743206924, 240, 2477765895,
      1486413896, 2392494594, 1536, 2972827888, 371604422, 1321128990, 1650688161, 371603462,
      6336, 3537975492, 3840, 989548665, 2307785957, 3803855915, 24768, 87701453, 1950713159,
      3667138029, 641206806, 1650688929, 1321161950, 943043659, 62976, 512018339, 2564836760,
      1696405152, 1650822305, 1166361814, 1146637495, 2074109465, 1669377698, 182801001,
      1652246945, 2094292125, 983040, 4216354106, 3966199272, 3124505570, 6340608, 976735493,
      1166362356, 3092880854, 940186150, 31465987, 3888919638, 3873835881, 16124416,
      1469443919, 2184054905] =
     [1633837952, 0, 0, 0, 0, 0, 0, 0, 0, 0, 0, 0, 0, 0, 0, 24, 3267675904, 0, 48, 2240384513]
     @ [0, 96, 185801731, 48, 2240384705, 371603462, 0, 384, 743206924, 240, 2477765895,
      1486413896, 2392494594, 1536, 2972827888, 371604422, 1321128990, 1650688161, 371603462,
      6336]
     @ [3537975492, 3840, 989548665, 2307785957, 3803855915, 24768, 87701453, 1950713159,
      3667138029, 641206806, 1650688929, 1321161950, 943043659, 62976, 512018339, 2564836760,
      1696405152, 1650822305, 1166361814, 1146637495]
     @ [2074109465, 1669377698, 182801001, 1652246945, 2094292125, 983040, 4216354106,
      3966199272, 3124505570, 6340608, 976735493, 1166362356, 3092880854, 940186150, 31465987,
      3888919638, 3873835881, 16124416, 1469443919, 2184054905]"
    by simp
  have "sha1_rounds 0
     [1633837952, 0, 0, 0, 0, 0, 0, 0, 0, 0, 0, 0, 0, 0, 0, 24, 3267675904, 0, 48, 2240384513,
      0, 96, 185801731, 48, 2240384705, 371603462, 0, 384, 743206924, 240, 2477765895,
      1486413896, 2392494594, 1536, 2972827888, 371604422, 1321128990, 1650688161, 371603462,
      6336, 3537975492, 3840, 989548665, 2307785957, 3803855915, 24768, 87701453, 1950713159,
      3667138029, 641206806, 1650688929, 1321161950, 943043659, 62976, 512018339, 2564836760,
      1696405152, 1650822305, 1166361814, 1146637495, 2074109465, 1669377698, 182801001,
      1652246945, 2094292125, 983040, 4216354106, 3966199272, 3124505570, 6340608, 976735493,
      1166362356, 3092880854, 940186150, 31465987, 3888919638, 3873835881, 16124416,
      1469443919, 2184054905]
     (1732584193, 4023233417, 2562383102, 271733878, 3285377520) =
     (1112808245, 1463342561, 562251891, 1746824694, 3640522413)"
    unfolding parts
    by (simp only: sha1_rounds_four length_twenty abc_rounds_1_1 abc_rounds_1_2
        abc_rounds_1_3 abc_rounds_1_4)
  then show ?thesis
    unfolding sha1_block_def words abc_schedule_1
    by (simp del: sha1_rounds.simps)
qed

lemma abc_digest:
  "sha1 (bytes_of ''abc'') =
     [169, 153, 62, 54, 71, 6, 129, 106, 186, 62, 37, 113, 120, 80, 194, 108, 156, 208, 216,
      157]"
  unfolding sha1_def abc_pad
  by (simp add: sha1_blocks.simps abc_block_1 word_bytes_def)

lemma sample_pad:
  "sha1_pad (bytes_of (''dGhlIHNhbXBsZSBub25jZQ=='' @ WEB_SOCKET_MAGIC_STRING)) =
     [100, 71, 104, 108, 73, 72, 78, 104, 98, 88, 66, 115, 90, 83, 66, 117, 98, 50, 53, 106,
      90, 81, 61, 61, 50, 53, 56, 69, 65, 70, 65, 53, 45, 69, 57, 49, 52, 45, 52, 55, 68, 65,
      45, 57, 53, 67, 65, 45, 67, 53, 65, 66, 48, 68, 67, 56, 53, 66, 49, 49, 128, 0, 0, 0, 0,
      0, 0, 0, 0, 0, 0, 0, 0, 0, 0, 0, 0, 0, 0, 0, 0, 0, 0, 0, 0, 0, 0, 0, 0, 0, 0, 0, 0, 0, 0,
      0, 0, 0, 0, 0, 0, 0, 0, 0, 0, 0, 0, 0, 0, 0, 0, 0, 0, 0, 0, 0, 0, 0, 0, 0, 0, 0, 0, 0, 0,
      0, 1, 224]"
  by code_simp

lemma sample_schedule_1:
  "expand 64
     [1682401388, 1229475432, 1649951347, 1515405941, 1647457642, 1515273533, 842348613,
      1095123253, 759511345, 875377719, 1145122105, 893600045, 1127563586, 809780024,
      893530417, 2147483648] =
     [909942828, 619188790, 2287383617, 117128338, 1874115766, 1175131875, 1502747054,
      901747561, 845628814, 4163435780, 1966773927, 1664546322, 3285607299, 116098809,
      1941241154, 2768487864, 365801013, 1394499013, 1874245584, 1813439660, 1306343101,
      903047494, 3903753116, 1251162832, 3464898740, 1096661662, 663941193, 2392553959,
      2042897861, 1666430109, 10043928, 2325024465, 2942110617, 4254630878, 517537771,
      4027055912, 1113470580, 93729216, 2909551665, 2248896983, 2277492040, 1046804781,
      2366289761, 887221813, 181358856, 3266607578, 1821587210, 4153629601, 3910963649,
      3201394082, 1279150782, 1356423736, 3059252702, 439281382, 758339734, 4081671435,
      4077783581, 852382809, 1902502840, 2869297044, 3314851595, 3168292426, 124912530,
      4282382342]"
  by (simp add: expand_numeral rotl_def)

lemma sample_rounds_1_1:
  "sha1_rounds 0
     [1682401388, 1229475432, 1649951347, 1515405941, 1647457642, 1515273533, 842348613,
      1095123253, 759511345, 875377719, 1145122105, 893600045, 1127563586, 809780024,
      893530417, 2147483648, 909942828, 619188790, 2287383617, 117128338]
     (1732584193, 4023233417, 2562383102, 271733878, 3285377520) =
     (152746364, 2378502326, 3752774234, 1979104605, 671166746)"
  by (simp add: sha1_f_def sha1_k_def rotl_def)

lemma sample_rounds_1_2:
  "sha1_rounds 20
     [1874115766, 1175131875, 1502747054, 901747561, 845628814, 4163435780, 1966773927,
      1664546322, 3285607299, 116098809, 1941241154, 2768487864, 365801013, 1394499013,
      1874245584, 1813439660, 1306343101, 903047494, 3903753116, 1251162832]
     (152746364, 2378502326, 3752774234, 1979104605, 671166746) =
     (732088382, 3498479745, 438141449, 3543353481, 662299890)"
  by (simp add: sha1_f_def sha1_k_def rotl_def)

lemma sample_rounds_1_3:
  "sha1_rounds 40
     [3464898740, 1096661662, 663941193, 2392553959, 2042897861, 1666430109, 10043928,
      2325024465, 2942110617, 4254630878, 517537771, 4027055912, 1113470580, 93729216,
      2909551665, 2248896983, 2277492040, 1046804781, 2366289761, 887221813]
     (732088382, 3498479745, 438141449, 3543353481, 662299890) =
     (1215486042, 3531927907, 2198413067, 465420221, 2676265148)"
  by (simp add: sha1_f_def sha1_k_def rotl_def)

lemma sample_rounds_1_4:
  "sha1_rounds 60
     [181358856, 3266607578, 1821587210, 4153629601, 3910963649, 3201394082, 1279150782,
      1356423736, 3059252702, 439281382, 758339734, 4081671435, 4077783581, 852382809,
      1902502840, 2869297044, 3314851595, 3168292426, 124912530, 4282382342]
     (1215486042, 3531927907, 2198413067, 465420221, 2676265148) =
     (4102706214, 2203686369, 633413371, 1246086146, 2591277810)"
  by (simp add: sha1_f_def sha1_k_def rotl_def)

lemma sample_block_1:
  "sha1_block (1732584193, 4023233417, 2562383102, 271733878, 3285377520)
     [100, 71, 104, 108, 73, 72, 78, 104, 98, 88, 66, 115, 90, 83, 66, 117, 98, 50, 53, 106,
      90, 81, 61, 61, 50, 53, 56, 69, 65, 70, 65, 53, 45, 69, 57, 49, 52, 45, 52, 55, 68, 65,
      45, 57, 53, 67, 65, 45, 67, 53, 65, 66, 48, 68, 67, 56, 53, 66, 49, 49, 128, 0, 0, 0] =
     (1540323111, 1931952490, 3195796473, 1517820024, 1581688034)"
proof -
  have words: "be32s
     [100, 71, 104, 108, 73, 72, 78, 104, 98, 88, 66, 115, 90, 83, 66, 117, 98, 50, 53, 106,
      90, 81, 61, 61, 50, 53, 56, 69, 65, 70, 65, 53, 45, 69, 57, 49, 52, 45, 52, 55, 68, 65,
      45, 57, 53, 67, 65, 45, 67, 53, 65, 66, 48, 68, 67, 56, 53, 66, 49, 49, 128, 0, 0, 0] =
     [1682401388, 1229475432, 1649951347, 1515405941, 1647457642, 1515273533, 842348613,
      1095123253, 759511345, 875377719, 1145122105, 893600045, 1127563586, 809780024,
      893530417, 2147483648]"
    by simp
  have parts: "[1682401388, 1229475432, 1649951347, 1515405941, 1647457642, 1515273533, 842348613,
      1095123253, 759511345, 875377719, 1145122105, 893600045, 1127563586, 809780024,
      893530417, 2147483648, 909942828, 619188790, 2287383617, 117128338, 1874115766,
      1175131875, 1502747054, 901747561, 845628814, 4163435780, 1966773927, 1664546322,
      3285607299, 116098809, 1941241154, 2768487864, 365801013, 1394499013, 1874245584,
      1813439660, 1306343101, 903047494, 3903753116, 1251162832, 3464898740, 1096661662,
      663941193, 2392553959, 2042897861, 1666430109, 10043928, 2325024465, 2942110617,
      4254630878, 517537771, 4027055912, 1113470580, 93729216, 2909551665, 2248896983,
      2277492040, 1046804781, 2366289761, 887221813, 181358856, 3266607578, 1821587210,
      4153629601, 3910963649, 3201394082, 1279150782, 1356423736, 3059252702, 439281382,
      758339734, 4081671435, 4077783581, 852382809, 1902502840, 2869297044, 3314851595,
      3168292426, 124912530, 4282382342] =
     [1682401388, 1229475432, 1649951347, 1515405941, 1647457642, 1515273533, 842348613,
      1095123253, 759511345, 875377719, 1145122105, 893600045, 1127563586, 809780024,
      893530417, 2147483648, 909942828, 619188790, 2287383617, 117128338]
     @ [1874115766, 1175131875, 1502747054, 901747561, 845628814, 4163435780, 1966773927,
      1664546322, 3285607299, 116098809, 1941241154, 2768487864, 365801013, 1394499013,
      1874245584, 1813439660, 1306343101, 903047494, 3903753116, 1251162832]
     @ [3464898740, 1096661662, 663941193, 2392553959, 2042897861, 1666430109, 10043928,
      2325024465, 2942110617, 4254630878, 517537771, 4027055912, 1113470580, 93729216,
      2909551665, 2248896983, 2277492040, 1046804781, 2366289761, 887221813]
     @ [181358856, 3266607578, 1821587210, 4153629601, 3910963649, 3201394082, 1279150782,
      1356423736, 3059252702, 439281382, 758339734, 4081671435, 4077783581, 852382809,
      1902502840, 2869297044, 3314851595, 3168292426, 124912530, 4282382342]"
    by simp
  have "sha1_rounds 0
     [1682401388, 1229475432, 1649951347, 1515405941, 1647457642, 1515273533, 842348613,
      1095123253, 759511345, 875377719, 1145122105, 893600045, 1127563586, 809780024,
      893530417, 2147483648, 909942828, 619188790, 2287383617, 117128338, 1874115766,
      1175131875, 1502747054, 901747561, 845628814, 4163435780, 1966773927, 1664546322,
      3285607299, 116098809, 1941241154, 2768487864, 365801013, 1394499013, 1874245584,
      1813439660, 1306343101, 903047494, 3903753116, 1251162832, 3464898740, 1096661662,
      663941193, 2392553959, 2042897861, 1666430109, 10043928, 2325024465, 2942110617,
      4254630878, 517537771, 4027055912, 1113470580, 93729216, 2909551665, 2248896983,
      2277492040, 1046804781, 2366289761, 887221813, 181358856, 3266607578, 1821587210,
      4153629601, 3910963649, 3201394082, 1279150782, 1356423736, 3059252702, 439281382,
      758339734, 4081671435, 4077783581, 852382809, 1902502840, 2869297044, 3314851595,
      3168292426, 124912530, 4282382342]
     (1732584193, 4023233417, 2562383102, 271733878, 3285377520) =
     (4102706214, 2203686369, 633413371, 1246086146, 2591277810)"
    unfolding parts
    by (simp only: sha1_rounds_four length_twenty sample_rounds_1_1 sample_rounds_1_2
        sample_rounds_1_3 sample_rounds_1_4)
  then show ?thesis
    unfolding sha1_block_def words sample_schedule_1
    by (simp del: sha1_rounds.simps)
qed

lemma sample_schedule_2:
  "expand 64
     [0, 0, 0, 0, 0, 0, 0, 0, 0, 0, 0, 0, 0, 0, 0, 480] =
     [0, 0, 960, 0, 0, 1920, 0, 960, 3840, 0, 0, 7680, 0, 3264, 15360, 1088, 0, 30720, 3840,
      13056, 61440, 3840, 0, 126720, 0, 52224, 245760, 17280, 0, 495360, 65280, 206464, 983040,
      61440, 13056, 2031360, 0, 833536, 3932160, 264960, 61440, 7929600, 1044480, 3376896,
      15728640, 1032960, 61440, 32488192, 0, 13369344, 62976000, 4423680, 0, 126812160,
      16711680, 52862464, 251658240, 15790080, 3357696, 520062976, 0, 213420032, 1006694400,
      67783168]"
  by (simp add: expand_numeral rotl_def)

lemma sample_rounds_2_1:
  "sha1_rounds 0
     [0, 0, 0, 0, 0, 0, 0, 0, 0, 0, 0, 0, 0, 0, 0, 480, 0, 0, 960, 0]
     (1540323111, 1931952490, 3195796473, 1517820024, 1581688034) =
     (704678737, 790182409, 2626053057, 2394280195, 639335578)"
  by (simp add: sha1_f_def sha1_k_def rotl_def)

lemma sample_rounds_2_2:
  "sha1_rounds 20
     [0, 1920, 0, 960, 3840, 0, 0, 7680, 0, 3264, 15360, 1088, 0, 30720, 3840, 13056, 61440,
      3840, 0, 126720]
     (704678737, 790182409, 2626053057, 2394280195, 639335578) =
     (1869188890, 3338603731, 3730487228, 1601125563, 497322629)"
  by (simp add: sha1_f_def sha1_k_def rotl_def)

lemma sample_rounds_2_3:
  "sha1_rounds 40
     [0, 52224, 245760, 17280, 0, 495360, 65280, 206464, 983040, 61440, 13056, 2031360, 0,
      833536, 3932160, 264960, 61440, 7929600, 1044480, 3376896]
     (1869188890, 3338603731, 3730487228, 1601125563, 497322629) =
     (1443995417, 140423934, 1212818885, 3242250216, 1752014928)"
  by (simp add: sha1_f_def sha1_k_def rotl_def)

lemma sample_rounds_2_4:
  "sha1_rounds 60
     [15728640, 1032960, 61440, 32488192, 0, 13369344, 62976000, 4423680, 0, 126812160,
      16711680, 52862464, 251658240, 15790080, 3357696, 520062976, 0, 213420032, 1006694400,
      67783168]
     (1443995417, 140423934, 1212818885, 3242250216, 1752014928) =
     (1470814213, 1295715756, 3531229709, 1958756557, 1417158664)"
  by (simp add: sha1_f_def sha1_k_def rotl_def)

lemma sample_block_2:
  "sha1_block (1540323111, 1931952490, 3195796473, 1517820024, 1581688034)
     [0, 0, 0, 0, 0, 0, 0, 0, 0, 0, 0, 0, 0, 0, 0, 0, 0, 0, 0, 0, 0, 0, 0, 0, 0, 0, 0, 0, 0, 0,
      0, 0, 0, 0, 0, 0, 0, 0, 0, 0, 0, 0, 0, 0, 0, 0, 0, 0, 0, 0, 0, 0, 0, 0, 0, 0, 0, 0, 0, 0,
      0, 0, 1, 224] =
     (3011137324, 3227668246, 2432058886, 3476576581, 2998846698)"
proof -
  have words: "be32s
     [0, 0, 0, 0, 0, 0, 0, 0, 0, 0, 0, 0, 0, 0, 0, 0, 0, 0, 0, 0, 0, 0, 0, 0, 0, 0, 0, 0, 0, 0,
      0, 0, 0, 0, 0, 0, 0, 0, 0, 0, 0, 0, 0, 0, 0, 0, 0, 0, 0, 0, 0, 0, 0, 0, 0, 0, 0, 0, 0, 0,
      0, 0, 1, 224] =
     [0, 0, 0, 0, 0, 0, 0, 0, 0, 0, 0, 0, 0, 0, 0, 480]"
    by simp
  have parts: "[0, 0, 0, 0, 0, 0, 0, 0, 0, 0, 0, 0, 0, 0, 0, 480, 0, 0, 960, 0, 0, 1920, 0, 960, 3840, 0,
      0, 7680, 0, 3264, 15360, 1088, 0, 30720, 3840, 13056, 61440, 3840, 0, 126720, 0, 52224,
      245760, 17280, 0, 495360, 65280, 206464, 983040, 61440, 13056, 2031360, 0, 833536,
      3932160, 264960, 61440, 7929600, 1044480, 3376896, 15728640, 1032960, 61440, 32488192, 0,
      13369344, 62976000, 4423680, 0, 126812160, 16711680, 52862464, 251658240, 15790080,
      3357696, 520062976, 0, 213420032, 1006694400, 67783168] =
     [0, 0, 0, 0, 0, 0, 0, 0, 0, 0, 0, 0, 0, 0, 0, 480, 0, 0, 960, 0]
     @ [0, 1920, 0, 960, 3840, 0, 0, 7680, 0, 3264, 15360, 1088, 0, 30720, 3840, 13056, 61440,
      3840, 0, 126720]
     @ [0, 52224, 245760, 17280, 0, 495360, 65280, 206464, 983040, 61440, 13056, 2031360, 0,
      833536, 3932160, 264960, 61440, 7929600, 1044480, 3376896]
     @ [15728640, 1032960, 61440, 32488192, 0, 13369344, 62976000, 4423680, 0, 126812160,
      16711680, 52862464, 251658240, 15790080, 3357696, 520062976, 0, 213420032, 1006694400,
      67783168]"
    by simp
  have "sha1_rounds 0
     [0, 0, 0, 0, 0, 0, 0, 0, 0, 0, 0, 0, 0, 0, 0, 480, 0, 0, 960, 0, 0, 1920, 0, 960, 3840, 0,
      0, 7680, 0, 3264, 15360, 1088, 0, 30720, 3840, 13056, 61440, 3840, 0, 126720, 0, 52224,
      245760, 17280, 0, 495360, 65280, 206464, 983040, 61440, 13056, 2031360, 0, 833536,
      3932160, 264960, 61440, 7929600, 1044480, 3376896, 15728640, 1032960, 61440, 32488192, 0,
      13369344, 62976000, 4423680, 0, 126812160, 16711680, 52862464, 251658240, 15790080,
      3357696, 520062976, 0, 213420032, 1006694400, 67783168]
     (1540323111, 1931952490, 3195796473, 1517820024, 1581688034) =
     (1470814213, 1295715756, 3531229709, 1958756557, 1417158664)"
    unfolding parts
    by (simp only: sha1_rounds_four length_twenty sample_rounds_2_1 sample_rounds_2_2
        sample_rounds_2_3 sample_rounds_2_4)
  then show ?thesis
    unfolding sha1_block_def words sample_schedule_2
    by (simp del: sha1_rounds.simps)
qed

lemma sample_digest:
  "sha1 (bytes_of (''dGhlIHNhbXBsZSBub25jZQ=='' @ WEB_SOCKET_MAGIC_STRING)) =
     [179, 122, 79, 44, 192, 98, 79, 22, 144, 246, 70, 6, 207, 56, 89, 69, 178, 190, 196, 234]"
  unfolding sha1_def sample_pad
  by (simp add: sha1_blocks.simps sample_block_1 sample_block_2 word_bytes_def)

lemma sample_base64:
  "base64 [179, 122, 79, 44, 192, 98, 79, 22, 144, 246, 70, 6, 207, 56, 89, 69, 178, 190, 196, 234]
   = ''s3pPLMBiTxaQ9kYGzzhZRbK+xOo=''"
  by (simp add: b64_char_def b64_alphabet_def)

section \<open>C1: a frame split over two calls\<close>

text \<open>
  Every call on a non-empty buffer consumes at least the first byte, whatever its
  outcome (lemma \<open>onSocketreadable_consumes\<close>): the handler reads with
  \<^verbatim>\<open>socket.read\<close> as if the whole frame were there, and when a later read finds too
  few bytes, what has been read is gone.
\<close>

text \<open>
  Claim C1 says that feeding a valid frame in two chunks, across two calls, decodes the
  same frame as feeding it in one call, and that a call with too few bytes keeps the
  partial data for the next call. The masked text frame "Hello" of RFC 6455, section
  5.7, is decoded when it arrives whole. Split after its third byte, the first call
  reads the two header bytes, finds no complete mask key and no payload, and returns
  with only the third byte left in the buffer; the second call then reads the frame's
  third and fourth byte as a header, and no frame is decoded at all.
\<close>

theorem split_frame_lost:
  "frames_of (fst (feed id [[0x81, 0x85, 0x37, 0xfa, 0x21, 0x3d, 0x7f, 0x9f, 0x4d, 0x51, 0x58]] fresh))
     = [\<lparr>isFinalFrame = True, opcode = 1, isMasked = True, messageLength = 5,
         decoded = [0x48, 0x65, 0x6c, 0x6c, 0x6f]\<rparr>]
   \<and> frames_of (fst (feed id [[0x81, 0x85, 0x37], [0xfa, 0x21, 0x3d, 0x7f, 0x9f, 0x4d, 0x51, 0x58]] fresh)) = []
   \<and> onSocketreadable id (arrive [0x81, 0x85, 0x37] fresh)
     = (ReadFailed, \<lparr>inbuf = [0x37], outbuf = [], ended = False, destroyed = False\<rparr>)"
  by (simp add: eval_defs)

text \<open>
  The same happens at every inner split point of this frame: whichever byte boundary
  from 1 to 10 the frame is split at, the two calls decode no frame.
\<close>

lemma hello_lost_at_every_inner_split:
  "list_all (\<lambda>k. frames_of (fst (feed id
       [take k [0x81, 0x85, 0x37, 0xfa, 0x21, 0x3d, 0x7f, 0x9f, 0x4d, 0x51, 0x58],
        drop k [0x81, 0x85, 0x37, 0xfa, 0x21, 0x3d, 0x7f, 0x9f, 0x4d, 0x51, 0x58]] fresh)) = [])
     [1, 2, 3, 4, 5, 6, 7, 8, 9, 10]"
  by (simp add: eval_defs)

text \<open>
  A frame of more than 65536 bytes never arrives whole. The text frame with the
  100000 bytes \<open>xxx...\<close> as its payload (mask key 0), sent in one piece, reaches the
  handler in two reads. The first call reads the header and the mask key and fails to
  read the payload; the second call takes two payload bytes for a header. No frame
  is decoded, and nothing is echoed.
\<close>

lemma large_frame_lost:
  "feed id [[0x81, 0xFF, 0x00, 0x00, 0x00, 0x00, 0x00, 0x01, 0x86, 0xA0, 0x00, 0x00, 0x00, 0x00]
            @ replicate 100000 0x78] fresh
   = ([ReadFailed, ReadFailed],
      \<lparr>inbuf = replicate 65516 0x78 @ replicate 34478 0x78, outbuf = [], ended = False,
         destroyed = False\<rparr>)"
  by (simp add: eval_defs)

section \<open>C2: the 64-bit extended length\<close>

text \<open>
  In JavaScript \<^verbatim>\<open>upperBits << 32\<close> shifts by \<open>32 mod 32 = 0\<close> bits: it is the upper
  half itself, read as a signed 32-bit integer.
\<close>

lemma js_shl_32: "js_shl x 32 = sint (word_of_int x :: 32 word)"
  by (simp add: js_shl_def)

text \<open>
  So the length the handler computes from the two halves is the 64-bit value only when
  the upper half is 0.
\<close>

lemma shifted_length_right_iff_upper_zero:
  assumes "0 \<le> upper" "upper < 2 ^ 32"
  shows "(js_shl upper 32 + lower = upper * 2 ^ 32 + lower) = (upper = 0)"
proof -
  have u: "uint (word_of_int upper :: 32 word) = upper"
    using assms by (simp add: uint_word_of_int take_bit_eq_mod)
  have "- 2147483648 \<le> uint (word_of_int upper :: 32 word)"
    using uint_ge_0 [of "word_of_int upper :: 32 word"] by linarith
  then have "sint (word_of_int upper :: 32 word) \<le> uint (word_of_int upper :: 32 word)"
    by (simp add: sint_uint signed_take_bit_int_less_eq_self_iff)
  then have le: "js_shl upper 32 \<le> upper"
    using u by (simp add: js_shl_32)
  show ?thesis
  proof (cases "upper = 0")
    case True
    then show ?thesis by (simp add: js_shl_32)
  next
    case False
    then have "upper < upper * 2 ^ 32" using assms by simp
    then show ?thesis using le False by simp
  qed
qed

text \<open>
  Claim C2 says that for the length indicator 127 the decoder computes
  \<open>upper * 2^32 + lower\<close> from the two 32-bit halves. The handler computes
  \<^verbatim>\<open>(upperBits << 32) + lowerBits\<close>, which is \<open>upper + lower\<close> for an upper half below
  \<open>2^31\<close>. For the binary frame below, whose eight length bytes are
  \<open>00 00 00 01 00 00 00 00\<close> (the length \<open>2^32\<close>), the handler takes the message length
  to be 1: it unmasks one byte as the payload and leaves the next in the buffer.
\<close>

theorem wrong_length_for_64_bit_indicator:
  "onSocketreadable utf8
     (arrive [0x82, 0xFF, 0x00, 0x00, 0x00, 0x01, 0x00, 0x00, 0x00, 0x00,
              0x37, 0xfa, 0x21, 0x3d, 0x76, 0xb8] fresh)
   = (Received \<lparr>isFinalFrame = True, opcode = 2, isMasked = True, messageLength = 1,
                decoded = [0x41]\<rparr> None,
      \<lparr>inbuf = [0xb8], outbuf = [], ended = False, destroyed = False\<rparr>)"
  by (simp add: eval_defs)

section \<open>C3: the answer to a Close frame\<close>

text \<open>
  Claim C3 says that a decoded Close frame is answered with exactly one Close frame
  (echoing the status code, here 1000) before the transport is released, and that no
  frame is processed after that. The handler only calls \<^verbatim>\<open>socket.end()\<close>. For the
  masked Close frame with status code 1000 below, nothing at all is written; and the
  text frame that arrives next is still read and decoded (its echo is not sent: the
  write on the ended socket has it destroyed).
\<close>

theorem close_frame_not_answered:
  "feed id [[0x88, 0x82, 0x37, 0xfa, 0x21, 0x3d, 0x34, 0x12], [0x81, 0x85, 0x37, 0xfa, 0x21, 0x3d, 0x7f, 0x9f, 0x4d, 0x51, 0x58]] fresh
   = ([Received \<lparr>isFinalFrame = True, opcode = 8, isMasked = True, messageLength = 2,
                  decoded = [0x03, 0xE8]\<rparr> None,
       Received \<lparr>isFinalFrame = True, opcode = 1, isMasked = True, messageLength = 5,
                  decoded = [0x48, 0x65, 0x6c, 0x6c, 0x6f]\<rparr> None],
      \<lparr>inbuf = [], outbuf = [], ended = True, destroyed = True\<rparr>)"
  by (simp add: eval_defs)

section \<open>C4: a frame whose MASK bit is clear\<close>

text \<open>
  Claim C4 says that decoding an unmasked frame fails with a protocol error. The
  handler computes \<^verbatim>\<open>isMasked\<close> and never tests it, and it has no protocol error to
  raise. For the unmasked text frame "Hello" of RFC 6455 the call returns normally at
  the failed payload read: no exception, nothing written, the connection not ended,
  four payload bytes consumed as a mask key and the fifth left in the buffer.
\<close>

theorem unmasked_frame_no_protocol_error:
  "onSocketreadable id (arrive [0x81, 0x05, 0x48, 0x65, 0x6c, 0x6c, 0x6f] fresh)
   = (ReadFailed, \<lparr>inbuf = [0x6f], outbuf = [], ended = False, destroyed = False\<rparr>)"
  by (simp add: eval_defs)

text \<open>
  Claim C4, amended. For every frame whose MASK bit is clear, once its two header
  bytes are buffered, the payload is never delivered: the handler takes the negative
  number \<open>secondByte - 128\<close> for the length, reads the next four bytes (when there are
  four) as a mask key, fails to read the payload and returns after logging that. It
  raises no error, writes nothing and does not end the connection; the bytes after
  those four stay in the buffer.
\<close>

theorem unmasked_frame_read_fails:
  assumes buf: "inbuf s = b1 # b2 # rest" and clear: "b2 AND 0x80 = 0"
  shows "onSocketreadable utf8 s
       = (ReadFailed, s\<lparr>inbuf := (if 4 \<le> length rest then drop 4 rest else rest)\<rparr>)"
proof -
  have neg: "uint b2 - 128 < 0"
    using clear mask_bit_iff [of b2] by simp
  have r1: "socket_read 1 s = (Inr (Some [b1]), s\<lparr>inbuf := b2 # rest\<rparr>)"
    using buf by (simp add: socket_read_def)
  have r2: "read_buffer 1 (s\<lparr>inbuf := b2 # rest\<rparr>) = (Inr [b2], s\<lparr>inbuf := rest\<rparr>)"
    by (simp add: read_buffer_def socket_read_def)
  have r3: "readMessageLength (lengthIndicatorInBits b2) (s\<lparr>inbuf := rest\<rparr>)
      = (Inr (uint b2 - 128), s\<lparr>inbuf := rest\<rparr>)"
    using neg by (simp add: readMessageLength_def lengthIndicatorInBits_def marker_defs)
  have r4: "readPayload utf8 fin opc msk (uint b2 - 128) (s\<lparr>inbuf := rest\<rparr>)
      = (ReadFailed, s\<lparr>inbuf := (if 4 \<le> length rest then drop 4 rest else rest)\<rparr>)"
    for fin opc msk
    using neg by (simp add: readPayload_def socket_read_def)
  show ?thesis
    by (simp add: onSocketreadable_def r1 r2 r3 r4)
qed

theorem unmasked_frame_read_fails_witness:
  "inbuf (arrive [0x81, 0x05, 0x48, 0x65, 0x6c, 0x6c, 0x6f] fresh)
     = 0x81 # 0x05 # [0x48, 0x65, 0x6c, 0x6c, 0x6f]
   \<and> (0x05 :: byte) AND 0x80 = 0
   \<and> onSocketreadable id (arrive [0x81, 0x05, 0x48, 0x65, 0x6c, 0x6c, 0x6f] fresh)
     = (ReadFailed, (arrive [0x81, 0x05, 0x48, 0x65, 0x6c, 0x6c, 0x6f] fresh)\<lparr>inbuf := [0x6f]\<rparr>)"
  using unmasked_frame_read_fails [where s = "arrive [0x81, 0x05, 0x48, 0x65, 0x6c, 0x6c, 0x6f] fresh"
      and ?b1.0 = "0x81" and ?b2.0 = "0x05" and rest = "[0x48, 0x65, 0x6c, 0x6c, 0x6f]"
      and ?utf8.0 = id]
  by (simp add: arrive_def fresh_def)

section \<open>C5: a reserved opcode\<close>

text \<open>
  Claim C5 says that a frame whose opcode is none of 0x0, 0x1, 0x2, 0x8, 0x9, 0xA is
  rejected with a protocol error, the connection torn down with close code 1002, and
  that it is never silently ignored. The dispatch of the handler compares the opcode
  with Text, Close and Ping and has no other branch. The masked frame with opcode 0x3
  below is decoded like any other, nothing is written and the connection stays open.
\<close>

theorem reserved_opcode_not_rejected:
  "onSocketreadable id (arrive [0x83, 0x81, 0x37, 0xfa, 0x21, 0x3d, 0x76] fresh)
   = (Received \<lparr>isFinalFrame = True, opcode = 3, isMasked = True, messageLength = 1,
                decoded = [0x41]\<rparr> None,
      \<lparr>inbuf = [], outbuf = [], ended = False, destroyed = False\<rparr>)"
  by (simp add: eval_defs)

text \<open>
  Claim C5, amended. A frame whose opcode is not Text (0x1), Close (0x8) or Ping (0x9),
  so every reserved opcode and also Continuation, Binary and Pong, changes neither
  what has been written nor whether the connection is ended, whatever else the buffer
  holds. When the frame is masked, has a non-empty payload of at most 125 bytes and is
  buffered whole, it is decoded, logged and ignored: no error, and only the bytes
  after the frame remain in the buffer.
\<close>

theorem unhandled_opcode_ignored:
  assumes buf: "inbuf s = b1 # bs"
    and opc: "b1 AND 0x0f \<noteq> OPCODES_TEXT" "b1 AND 0x0f \<noteq> OPCODES_CLOSE"
      "b1 AND 0x0f \<noteq> OPCODES_PING"
  shows "outbuf (snd (onSocketreadable utf8 s)) = outbuf s
    \<and> ended (snd (onSocketreadable utf8 s)) = ended s
    \<and> (bs = (0x80 + of_nat (length enc)) # key @ enc @ rest
         \<and> length key = 4 \<and> enc \<noteq> [] \<and> length enc \<le> 125 \<longrightarrow>
       onSocketreadable utf8 s
         = (Received \<lparr>isFinalFrame = (b1 AND 0x80 \<noteq> 0), opcode = b1 AND 0x0f, isMasked = True,
                      messageLength = int (length enc), decoded = unmask key enc\<rparr> None,
            s\<lparr>inbuf := rest\<rparr>))"
proof -
  have "onSocketreadable utf8 s
         = (Received \<lparr>isFinalFrame = (b1 AND 0x80 \<noteq> 0), opcode = b1 AND 0x0f, isMasked = True,
                      messageLength = int (length enc), decoded = unmask key enc\<rparr> None,
            s\<lparr>inbuf := rest\<rparr>)"
    if "bs = (0x80 + of_nat (length enc)) # key @ enc @ rest" "length key = 4" "enc \<noteq> []"
      "length enc \<le> 125"
  proof -
    have "inbuf s = b1 # (0x80 + of_nat (length enc)) # key @ enc @ rest"
      using buf that(1) by simp
    from onSocketreadable_frame7 [OF this that(2) that(3) that(4) refl, of utf8]
    show ?thesis by (simp add: dispatch_other [OF opc])
  qed
  then show ?thesis
    using onSocketreadable_other [OF buf opc, of utf8] by blast
qed

theorem unhandled_opcode_ignored_witness:
  "inbuf (arrive [0x83, 0x81, 0x37, 0xfa, 0x21, 0x3d, 0x76] fresh)
     = 0x83 # [0x81, 0x37, 0xfa, 0x21, 0x3d, 0x76]
   \<and> (0x83 :: byte) AND 0x0f \<noteq> OPCODES_TEXT
   \<and> (0x83 :: byte) AND 0x0f \<noteq> OPCODES_CLOSE
   \<and> (0x83 :: byte) AND 0x0f \<noteq> OPCODES_PING
   \<and> outbuf (snd (onSocketreadable id (arrive [0x83, 0x81, 0x37, 0xfa, 0x21, 0x3d, 0x76] fresh))) = []
   \<and> ended (snd (onSocketreadable id (arrive [0x83, 0x81, 0x37, 0xfa, 0x21, 0x3d, 0x76] fresh))) = False
   \<and> onSocketreadable id (arrive [0x83, 0x81, 0x37, 0xfa, 0x21, 0x3d, 0x76] fresh)
     = (Received \<lparr>isFinalFrame = True, opcode = 3, isMasked = True, messageLength = 1,
                  decoded = [0x41]\<rparr> None, fresh)"
  using unhandled_opcode_ignored [where s = "arrive [0x83, 0x81, 0x37, 0xfa, 0x21, 0x3d, 0x76] fresh"
      and ?b1.0 = "0x83" and bs = "[0x81, 0x37, 0xfa, 0x21, 0x3d, 0x76]" and enc = "[0x76]"
      and key = "[0x37, 0xfa, 0x21, 0x3d]" and rest = "[]" and ?utf8.0 = id]
  by (simp add: arrive_def fresh_def opcode_defs unmask_def)

section \<open>C6: the accept token\<close>

text \<open>
  Claim C6. For every client key the accept token is the Base64 encoding of the SHA-1
  digest of the key followed by \<open>258EAFA5-E914-47DA-95CA-C5AB0DC85B11\<close>; for the key
  \<open>dGhlIHNhbXBsZSBub25jZQ==\<close> it is \<open>s3pPLMBiTxaQ9kYGzzhZRbK+xOo=\<close>.
\<close>

theorem accept_token_is_base64_sha1:
  "createSocketAccept clientKey
     = base64 (sha1 (bytes_of (clientKey @ ''258EAFA5-E914-47DA-95CA-C5AB0DC85B11'')))
   \<and> createSocketAccept ''dGhlIHNhbXBsZSBub25jZQ=='' = ''s3pPLMBiTxaQ9kYGzzhZRbK+xOo=''"
proof
  show "createSocketAccept clientKey
      = base64 (sha1 (bytes_of (clientKey @ ''258EAFA5-E914-47DA-95CA-C5AB0DC85B11'')))"
    by (simp add: createSocketAccept_def WEB_SOCKET_MAGIC_STRING_def)
  show "createSocketAccept ''dGhlIHNhbXBsZSBub25jZQ=='' = ''s3pPLMBiTxaQ9kYGzzhZRbK+xOo=''"
    unfolding createSocketAccept_def sample_digest by (rule sample_base64)
qed

section \<open>C7: the answer to a Ping\<close>

text \<open>
  A masked Ping with a payload of 1 to 125 bytes, buffered whole, is answered with one
  Pong frame that carries the same payload, and the connection stays open.
\<close>

lemma ping_answered:
  assumes buf: "inbuf s = b1 # (0x80 + of_nat (length enc)) # key @ enc @ rest"
    and ping: "b1 AND 0x0f = OPCODES_PING"
    and key: "length key = 4" and enc: "enc \<noteq> []" "length enc \<le> 125"
    and open_socket: "\<not> ended s"
  shows "onSocketreadable utf8 s
       = (Received \<lparr>isFinalFrame = (b1 AND 0x80 \<noteq> 0), opcode = OPCODES_PING, isMasked = True,
                    messageLength = int (length enc), decoded = unmask key enc\<rparr> None,
          s\<lparr>inbuf := rest, outbuf := outbuf s @ [0x8A, of_nat (length enc)] @ unmask key enc\<rparr>)"
proof -
  have "dispatch utf8 OPCODES_PING (unmask key enc) (s\<lparr>inbuf := rest\<rparr>)
      = (None, s\<lparr>inbuf := rest, outbuf := outbuf s @ [0x8A, of_nat (length enc)] @ unmask key enc\<rparr>)"
    using open_socket
    by (simp add: dispatch_def sendPong_def socket_write_def opcode_defs unmask_def)
  then show ?thesis
    using onSocketreadable_frame7 [OF buf key enc refl, of utf8] ping by simp
qed

text \<open>
  Claim C7 says that every Ping is answered with exactly one Pong with the same
  payload. A Ping with an empty payload is not answered: \<^verbatim>\<open>socket.read(0)\<close> returns
  \<^verbatim>\<open>null\<close>, which the handler takes for a failed read of the payload, so it returns
  before the dispatch and writes nothing.
\<close>

theorem empty_ping_not_answered:
  "onSocketreadable utf8 (arrive [0x89, 0x80, 0x37, 0xfa, 0x21, 0x3d] fresh) = (ReadFailed, fresh)"
  by (simp add: eval_defs)

section \<open>C8: the length encoding of outbound frames\<close>

text \<open>
  The message of \<^verbatim>\<open>sendMessage\<close> is a JavaScript string, and the UTF-8 bytes of a
  string are fewer than \<open>2^31\<close>. The bound matters for the 64-bit form only:
  \<^verbatim>\<open>sendMessage\<close> writes 0 for the upper half and passes the whole length to
  \<^verbatim>\<open>writeUInt32BE\<close> for the lower one, which would throw at \<open>2^32\<close> bytes, a length
  no message has.
\<close>

lemma sendMessage_four_gigabytes_throws:
  "sendMessage (replicate (2 ^ 32) 0x61) fresh OPCODES_TEXT = (Some RangeError, fresh)"
  by (simp add: sendMessage_def lengthEncoding_def writeUInt32BE_def marker_defs)

text \<open>
  Claim C8. For every outbound payload (shorter than \<open>2^32\<close> bytes, as every message
  is), written to a socket that has not been ended, the frame is the first byte
  \<open>0x80 OR opcode\<close>, the length and the payload, in the minimal length encoding: a
  length of at most 125 is the second byte itself, a length from 126 to 65535 is the
  byte 126 followed by the length as a 16-bit big-endian integer, and a longer one is
  the byte 127 followed by two big-endian 32-bit halves whose combined value is the
  length.
\<close>

theorem sendMessage_length_encoding:
  assumes open_socket: "\<not> ended s" and small: "length d < 2 ^ 32"
  shows "(length d \<le> 125 \<longrightarrow>
            sendMessage d s opc
              = (None, s\<lparr>outbuf := outbuf s @ [0x80 OR opc, of_nat (length d)] @ d\<rparr>))
       \<and> (125 < length d \<and> length d \<le> 65535 \<longrightarrow>
            sendMessage d s opc
              = (None, s\<lparr>outbuf := outbuf s @ [0x80 OR opc, 126] @ writeUInt16BE (length d) @ d\<rparr>)
            \<and> readUInt16BE (writeUInt16BE (length d)) = int (length d))
       \<and> (65535 < length d \<longrightarrow>
            sendMessage d s opc
              = (None, s\<lparr>outbuf := outbuf s @ [0x80 OR opc, 127] @ [0, 0, 0, 0]
                    @ [of_nat (length d div 2 ^ 24), of_nat (length d div 2 ^ 16),
                       of_nat (length d div 2 ^ 8), of_nat (length d)] @ d\<rparr>)
            \<and> readUInt32BE [0, 0, 0, 0] * 2 ^ 32
                + readUInt32BE [of_nat (length d div 2 ^ 24), of_nat (length d div 2 ^ 16),
                                of_nat (length d div 2 ^ 8), of_nat (length d)]
              = int (length d))"
proof (intro conjI impI)
  assume "length d \<le> 125"
  then show "sendMessage d s opc
      = (None, s\<lparr>outbuf := outbuf s @ [0x80 OR opc, of_nat (length d)] @ d\<rparr>)"
    using open_socket
    by (simp add: sendMessage_def lengthEncoding_def socket_write_def marker_defs)
next
  assume a: "125 < length d \<and> length d \<le> 65535"
  then show "sendMessage d s opc
      = (None, s\<lparr>outbuf := outbuf s @ [0x80 OR opc, 126] @ writeUInt16BE (length d) @ d\<rparr>)"
    using open_socket
    by (simp add: sendMessage_def lengthEncoding_def socket_write_def marker_defs)
  from a show "readUInt16BE (writeUInt16BE (length d)) = int (length d)"
    by (simp add: readUInt16BE_writeUInt16BE)
next
  assume a: "65535 < length d"
  then show "sendMessage d s opc
      = (None, s\<lparr>outbuf := outbuf s @ [0x80 OR opc, 127] @ [0, 0, 0, 0]
            @ [of_nat (length d div 2 ^ 24), of_nat (length d div 2 ^ 16),
               of_nat (length d div 2 ^ 8), of_nat (length d)] @ d\<rparr>)"
    using open_socket small
    by (simp add: sendMessage_def lengthEncoding_def writeUInt32BE_def socket_write_def marker_defs)
  have "readUInt32BE [0, 0, 0, 0] = 0"
    by (simp add: readUInt32BE_def)
  then show "readUInt32BE [0, 0, 0, 0] * 2 ^ 32
      + readUInt32BE [of_nat (length d div 2 ^ 24), of_nat (length d div 2 ^ 16),
                      of_nat (length d div 2 ^ 8), of_nat (length d)]
    = int (length d)"
    using readUInt32BE_bytes [OF small] by simp
qed

theorem sendMessage_length_encoding_witness:
  "\<not> ended fresh
   \<and> length (replicate 5 (0x61 :: byte)) < 2 ^ 32 \<and> length (replicate 5 (0x61 :: byte)) \<le> 125
   \<and> sendMessage (replicate 5 0x61) fresh OPCODES_TEXT
     = (None, fresh\<lparr>outbuf := [0x81, 0x05] @ replicate 5 0x61\<rparr>)
   \<and> length (replicate 300 (0x61 :: byte)) < 2 ^ 32
   \<and> 125 < length (replicate 300 (0x61 :: byte)) \<and> length (replicate 300 (0x61 :: byte)) \<le> 65535
   \<and> sendMessage (replicate 300 0x61) fresh OPCODES_TEXT
     = (None, fresh\<lparr>outbuf := [0x81, 126, 0x01, 0x2C] @ replicate 300 0x61\<rparr>)
   \<and> readUInt16BE [0x01, 0x2C] = 300
   \<and> length (replicate 70000 (0x61 :: byte)) < 2 ^ 32
   \<and> 65535 < length (replicate 70000 (0x61 :: byte))
   \<and> sendMessage (replicate 70000 0x61) fresh OPCODES_TEXT
     = (None, fresh\<lparr>outbuf := [0x81, 127, 0, 0, 0, 0, 0x00, 0x01, 0x11, 0x70]
                                  @ replicate 70000 0x61\<rparr>)
   \<and> readUInt32BE [0, 0, 0, 0] * 2 ^ 32 + readUInt32BE [0x00, 0x01, 0x11, 0x70] = 70000"
  using sendMessage_length_encoding [where s = fresh and d = "replicate 5 0x61" and opc = OPCODES_TEXT]
    sendMessage_length_encoding [where s = fresh and d = "replicate 300 0x61" and opc = OPCODES_TEXT]
    sendMessage_length_encoding [where s = fresh and d = "replicate 70000 0x61" and opc = OPCODES_TEXT]
  by (simp add: fresh_def writeUInt16BE_def readUInt16BE_def readUInt32BE_def OPCODES_TEXT_def)

section \<open>C9: the handshake response\<close>

text \<open>
  Claim C9. For every client key the handshake response is exactly the status line
  and the three header lines, each ended by CR LF, with the accept token computed from
  the key, and then the empty line CR LF.
\<close>

theorem handshake_response_exact:
  "prepareHandshakeHeader clientKey
   = ''HTTP/1.1 101 Switching Protocols'' @ [CHR 0x0D, CHR 0x0A]
     @ ''Upgrade: websocket'' @ [CHR 0x0D, CHR 0x0A]
     @ ''Connection: Upgrade'' @ [CHR 0x0D, CHR 0x0A]
     @ ''Sec-WebSocket-Accept: '' @ createSocketAccept clientKey @ [CHR 0x0D, CHR 0x0A]
     @ [CHR 0x0D, CHR 0x0A]"
  by (simp add: prepareHandshakeHeader_def CRLF_def)

section \<open>C10: the length indicator is right exactly for masked frames\<close>

text \<open>
  Claim C10. For every second frame byte \<open>b\<close>, the indicator the handler computes,
  \<open>b - 128\<close>, equals the 7-bit length field \<open>b mod 128\<close> if and only if the MASK bit of
  \<open>b\<close> is set. When the MASK bit is clear the indicator is negative, so the first
  branch of the length chain (\<open>\<le> 125\<close>) takes it as the message length and reads no
  further byte.
\<close>

theorem length_indicator_correct_iff_masked:
  "((lengthIndicatorInBits b = uint b mod 128) = (b AND 0x80 \<noteq> 0))
   \<and> (b AND 0x80 = 0 \<longrightarrow>
        lengthIndicatorInBits b < 0
        \<and> readMessageLength (lengthIndicatorInBits b) s = (Inr (lengthIndicatorInBits b), s))"
proof -
  have b: "0 \<le> uint b" "uint b < 256"
    using uint_byte_bound [of b] by simp_all
  have "(uint b - 128 = uint b mod 128) = (128 \<le> uint b)"
    using b by presburger
  moreover have "b AND 0x80 = 0 \<Longrightarrow> uint b - 128 < 0"
    using mask_bit_iff [of b] by simp
  ultimately show ?thesis
    by (auto simp add: lengthIndicatorInBits_def readMessageLength_def marker_defs mask_bit_iff)
qed

theorem length_indicator_witness:
  "(0x05::byte) AND 0x80 = 0 \<and> lengthIndicatorInBits 0x05 = - 123
   \<and> readMessageLength (lengthIndicatorInBits 0x05) fresh = (Inr (- 123), fresh)
   \<and> lengthIndicatorInBits 0x85 = 5 \<and> uint (0x85::byte) mod 128 = 5"
  using length_indicator_correct_iff_masked [of "0x05" fresh]
  by (simp add: lengthIndicatorInBits_def FIRST_BIT_def)

end
